theory Spec2Isabelle
  imports Complex_Main "HOL-Library.Product_Lexorder" "HOL-Library.AList" "HOL-Library.Sublist"
begin

section \<open>Python values used by the form tools\<close>

text \<open>
  The repository is Python. Its functions are embedded as HOL functions:
  \<^item> a raised exception is the value \<open>Inl e\<close> of a sum type, a returned value is \<open>Inr v\<close>;
  \<^item> Python \<open>int\<close> is \<open>int\<close>. A Python \<open>float\<close> is a \<open>real\<close>, its value. The heuristics
    are given twice: with the tests computed in exact arithmetic, which is what floating
    point computes as long as no operation rounds, and with the outcomes of the tests
    left open, for what holds whatever floating point computes. Where rounding itself
    is the question (the conversion between the two y axes applied twice), binary64
    subtraction is modelled;
  \<^item> the two PDF libraries (PyMuPDF, pikepdf) are not part of the repository: what they
    return for a path is a parameter of the embedded functions;
  \<^item> opening and closing a document handle is recorded in a list of events, in the order
    in which the calls happen.
\<close>

datatype exn = PyErr (exn_type: string) (exn_msg: string)

datatype event = FitzOpen | FitzClose | PikeOpen | PikeClose

text \<open>\<^verbatim>\<open>sep.join(xs)\<close>\<close>

fun join :: "string \<Rightarrow> string list \<Rightarrow> string" where
  "join sep [] = []"
| "join sep [x] = x"
| "join sep (x # y # ys) = x @ sep @ join sep (y # ys)"

text \<open>\<^verbatim>\<open>str(n)\<close> for an integer: its decimal digits, with a minus sign when negative.\<close>

fun str_nat :: "nat \<Rightarrow> string" where
  "str_nat n =
     (if n < 10 then [''0123456789'' ! n]
      else str_nat (n div 10) @ [''0123456789'' ! (n mod 10)])"

declare str_nat.simps [simp del]

definition str_int :: "int \<Rightarrow> string" where
  "str_int i = (if i < 0 then ''-'' @ str_nat (nat (- i)) else str_nat (nat i))"

section \<open>Subtraction of Python floats\<close>

text \<open>
  A Python float is an IEEE-754 binary64 number. A finite one is \<open>m * 2 ^ e\<close> for integers
  \<open>m\<close> and \<open>e\<close> with \<open>\<bar>m\<bar> < 2 ^ 53\<close>; it is modelled by the pair \<open>(m, e)\<close>, and two pairs are
  the same float when their values are equal. \<^verbatim>\<open>a - b\<close> is the exact difference rounded
  to 53 significant bits, ties to the even mantissa. The exponent is not bounded here:
  overflow to infinity, and NaN, are outside the model.
\<close>

type_synonym dbl = "int \<times> int"

definition dbl_val :: "dbl \<Rightarrow> real" where
  "dbl_val d =
     (if 0 \<le> snd d then of_int (fst d) * 2 ^ nat (snd d)
      else of_int (fst d) / 2 ^ nat (- snd d))"

text \<open>\<^verbatim>\<open>int.bit_length\<close>: the number of binary digits.\<close>

fun bit_length :: "nat \<Rightarrow> nat" where
  "bit_length n = (if n = 0 then 0 else Suc (bit_length (n div 2)))"

declare bit_length.simps [simp del]

definition round53 :: "int \<Rightarrow> int \<Rightarrow> dbl" where
  "round53 m e =
     (let n = bit_length (nat \<bar>m\<bar>)
      in if n \<le> 53 then (m, e)
         else
           let k = n - 53;
               q = m div 2 ^ k;
               r = m mod 2 ^ k;
               half = 2 ^ (k - 1)
           in if r < half \<or> (r = half \<and> even q) then (q, e + int k)
              else (q + 1, e + int k))"

definition float_sub :: "dbl \<Rightarrow> dbl \<Rightarrow> dbl" where
  "float_sub a b =
     (let e = min (snd a) (snd b)
      in round53 (fst a * 2 ^ nat (snd a - e) - fst b * 2 ^ nat (snd b - e)) e)"

text \<open>
  The conversion between the two y axes, as the code computes it on floats:
  \<^verbatim>\<open>page.rect.height - f_ury\<close>, \<^verbatim>\<open>page.rect.height - f_lly\<close> (lines 104, 105, 127) and
  \<^verbatim>\<open>page.rect.height - word_center_y_pymu\<close> (line 163).
\<close>

definition normalize :: "dbl \<Rightarrow> dbl \<Rightarrow> dbl" where
  "normalize y H = float_sub H y"

section \<open>Word tokens and the three proximity heuristics\<close>

text \<open>
  A word as \<^verbatim>\<open>page.get_text("words")\<close> gives it:
  \<^verbatim>\<open>[x0, y0, x1, y1, "word", block_no, line_no, word_no]\<close>, the y axis pointing down
  from the top of the page.
\<close>

record word =
  w_x0 :: real
  w_y0 :: real
  w_x1 :: real
  w_y1 :: real
  word_text :: string
  block_no :: int
  line_no :: int
  word_no :: int

type_synonym word_id = "int \<times> int \<times> int"

definition word_id :: "word \<Rightarrow> word_id" where
  "word_id w = (block_no w, line_no w, word_no w)"

text \<open>
  The candidate dictionaries: every one has the keys \<^verbatim>\<open>'text'\<close> and \<^verbatim>\<open>'id'\<close>; the left
  candidates add \<^verbatim>\<open>'x1'\<close> and \<^verbatim>\<open>'y0'\<close>, the above candidates \<^verbatim>\<open>'y1'\<close> and \<^verbatim>\<open>'x0'\<close>,
  the closest candidates \<^verbatim>\<open>'distance'\<close>.
\<close>

record cand =
  c_text :: string
  c_id :: word_id

record left_cand = cand +
  c_x1 :: real
  c_y0 :: real

record above_cand = cand +
  c_y1 :: real
  c_x0 :: real

record closest_cand = cand +
  c_distance :: real

definition SEARCH_MARGIN_X_LEFT :: real where "SEARCH_MARGIN_X_LEFT = 70"
definition VERTICAL_ALIGNMENT_TOLERANCE :: real where "VERTICAL_ALIGNMENT_TOLERANCE = 10"
definition SEARCH_MARGIN_Y_ABOVE :: real where "SEARCH_MARGIN_Y_ABOVE = 30"
definition HORIZONTAL_ALIGNMENT_TOLERANCE :: real where "HORIZONTAL_ALIGNMENT_TOLERANCE = 50"
definition MAX_RELEVANT_DISTANCE_SQ_OVERALL :: real where
  "MAX_RELEVANT_DISTANCE_SQ_OVERALL = 150 * 150"

subsection \<open>Text left of the field (computed first)\<close>

text \<open>
  \<open>height\<close> is \<^verbatim>\<open>page.rect.height\<close>. The tests of this section compute in exact
  arithmetic.
\<close>

definition is_vertically_aligned :: "real \<Rightarrow> real \<Rightarrow> real \<Rightarrow> word \<Rightarrow> bool" where
  "is_vertically_aligned height f_lly f_ury w =
     (let field_top_y_pymu = height - f_ury;
          field_bottom_y_pymu = height - f_lly
      in \<bar>w_y1 w - field_top_y_pymu\<bar> < VERTICAL_ALIGNMENT_TOLERANCE
         \<or> \<bar>w_y0 w - field_bottom_y_pymu\<bar> < VERTICAL_ALIGNMENT_TOLERANCE
         \<or> (w_y0 w < field_bottom_y_pymu \<and> w_y1 w > field_top_y_pymu))"

definition left_qualifies :: "real \<Rightarrow> real \<Rightarrow> real \<Rightarrow> real \<Rightarrow> word \<Rightarrow> bool" where
  "left_qualifies height f_x0 f_lly f_ury w =
     (w_x1 w < f_x0 \<and> (f_x0 - w_x1 w) < SEARCH_MARGIN_X_LEFT
      \<and> is_vertically_aligned height f_lly f_ury w)"

definition left_texts_candidates ::
  "real \<Rightarrow> real \<Rightarrow> real \<Rightarrow> real \<Rightarrow> word list \<Rightarrow> left_cand list" where
  "left_texts_candidates height f_x0 f_lly f_ury words_raw =
     map (\<lambda>w. \<lparr>c_text = word_text w, c_id = word_id w, c_x1 = w_x1 w, c_y0 = w_y0 w\<rparr>)
       (filter (left_qualifies height f_x0 f_lly f_ury) words_raw)"

text \<open>
  \<^verbatim>\<open>sort(key=lambda x: (-x['x1'], x['y0']))\<close> and the slice \<^verbatim>\<open>[:3]\<close>. Python's sort is
  stable, as \<open>sort_key\<close> is; tuples compare lexicographically.
\<close>

definition left_items :: "real \<Rightarrow> real \<Rightarrow> real \<Rightarrow> real \<Rightarrow> word list \<Rightarrow> left_cand list" where
  "left_items height f_x0 f_lly f_ury words_raw =
     take 3 (sort_key (\<lambda>x. (- c_x1 x, c_y0 x))
       (left_texts_candidates height f_x0 f_lly f_ury words_raw))"

definition claimed_after_left ::
  "real \<Rightarrow> real \<Rightarrow> real \<Rightarrow> real \<Rightarrow> word list \<Rightarrow> word_id set" where
  "claimed_after_left height f_x0 f_lly f_ury words_raw =
     set (map c_id (left_items height f_x0 f_lly f_ury words_raw))"

subsection \<open>Text above the field (computed second)\<close>

definition above_qualifies :: "real \<Rightarrow> real \<Rightarrow> real \<Rightarrow> real \<Rightarrow> word \<Rightarrow> bool" where
  "above_qualifies height f_x0 f_x1 f_ury w =
     (let field_top_y_pymu = height - f_ury
      in w_y1 w < field_top_y_pymu
         \<and> (field_top_y_pymu - w_y1 w) < SEARCH_MARGIN_Y_ABOVE
         \<and> max f_x0 (w_x0 w) < min f_x1 (w_x1 w) + HORIZONTAL_ALIGNMENT_TOLERANCE)"

definition above_texts_candidates ::
  "word_id set \<Rightarrow> real \<Rightarrow> real \<Rightarrow> real \<Rightarrow> real \<Rightarrow> word list \<Rightarrow> above_cand list" where
  "above_texts_candidates claimed_word_ids height f_x0 f_x1 f_ury words_raw =
     map (\<lambda>w. \<lparr>c_text = word_text w, c_id = word_id w, c_y1 = w_y1 w, c_x0 = w_x0 w\<rparr>)
       (filter (\<lambda>w. word_id w \<notin> claimed_word_ids \<and> above_qualifies height f_x0 f_x1 f_ury w)
          words_raw)"

definition above_items ::
  "real \<Rightarrow> real \<Rightarrow> real \<Rightarrow> real \<Rightarrow> real \<Rightarrow> word list \<Rightarrow> above_cand list" where
  "above_items height f_x0 f_lly f_x1 f_ury words_raw =
     take 3 (sort_key (\<lambda>x. (- c_y1 x, c_x0 x))
       (above_texts_candidates (claimed_after_left height f_x0 f_lly f_ury words_raw)
          height f_x0 f_x1 f_ury words_raw))"

definition claimed_after_above ::
  "real \<Rightarrow> real \<Rightarrow> real \<Rightarrow> real \<Rightarrow> real \<Rightarrow> word list \<Rightarrow> word_id set" where
  "claimed_after_above height f_x0 f_lly f_x1 f_ury words_raw =
     claimed_after_left height f_x0 f_lly f_ury words_raw
       \<union> set (map c_id (above_items height f_x0 f_lly f_x1 f_ury words_raw))"

subsection \<open>Closest text overall (computed last)\<close>

definition distance_sq :: "real \<Rightarrow> real \<Rightarrow> real \<Rightarrow> real \<Rightarrow> real \<Rightarrow> word \<Rightarrow> real" where
  "distance_sq height f_x0 f_lly f_x1 f_ury w =
     (let field_center_x_pikepdf = (f_x0 + f_x1) / 2;
          field_center_y_pikepdf = (f_lly + f_ury) / 2;
          word_center_x_pymu = (w_x0 w + w_x1 w) / 2;
          word_center_y_pymu = (w_y0 w + w_y1 w) / 2;
          word_center_y_pikepdf = height - word_center_y_pymu;
          dx = word_center_x_pymu - field_center_x_pikepdf;
          dy = word_center_y_pikepdf - field_center_y_pikepdf
      in dx * dx + dy * dy)"

definition closest_texts_candidates ::
  "word_id set \<Rightarrow> real \<Rightarrow> real \<Rightarrow> real \<Rightarrow> real \<Rightarrow> real \<Rightarrow> word list \<Rightarrow> closest_cand list" where
  "closest_texts_candidates claimed_word_ids height f_x0 f_lly f_x1 f_ury words_raw =
     map (\<lambda>w. \<lparr>c_text = word_text w, c_id = word_id w,
               c_distance = distance_sq height f_x0 f_lly f_x1 f_ury w\<rparr>)
       (filter (\<lambda>w. word_id w \<notin> claimed_word_ids
                    \<and> distance_sq height f_x0 f_lly f_x1 f_ury w
                        < MAX_RELEVANT_DISTANCE_SQ_OVERALL)
          words_raw)"

definition closest_items ::
  "real \<Rightarrow> real \<Rightarrow> real \<Rightarrow> real \<Rightarrow> real \<Rightarrow> word list \<Rightarrow> closest_cand list" where
  "closest_items height f_x0 f_lly f_x1 f_ury words_raw =
     take 3 (sort_key c_distance
       (closest_texts_candidates (claimed_after_above height f_x0 f_lly f_x1 f_ury words_raw)
          height f_x0 f_lly f_x1 f_ury words_raw))"

subsection \<open>Assembling the output string: Closest | Left | Above\<close>

definition segment :: "string \<Rightarrow> string list \<Rightarrow> string list" where
  "segment label texts = (if texts \<noteq> [] then [label @ join '' '' texts] else [])"

definition contextual_texts_output ::
  "string list \<Rightarrow> string list \<Rightarrow> string list \<Rightarrow> string list" where
  "contextual_texts_output actual_closest_text_list actual_left_text_list actual_above_text_list =
     segment ''Closest: '' actual_closest_text_list
     @ segment ''Left: '' actual_left_text_list
     @ segment ''Above: '' actual_above_text_list"

definition no_context_msg :: string where
  "no_context_msg = ''No distinct contextual text found nearby (or heuristics need tuning).''"

definition assemble :: "string list \<Rightarrow> string list \<Rightarrow> string list \<Rightarrow> string" where
  "assemble actual_closest_text_list actual_left_text_list actual_above_text_list =
     (let out = contextual_texts_output
                  actual_closest_text_list actual_left_text_list actual_above_text_list
      in if out = [] then no_context_msg else join '' | '' out)"

section \<open>get_contextual_text_for_field\<close>

text \<open>
  What PyMuPDF gives for a path: \<^verbatim>\<open>fitz.open\<close> raises or returns a document; a document
  is its list of pages; a page has \<^verbatim>\<open>page.rect.height\<close> and \<^verbatim>\<open>page.get_text("words")\<close>,
  which raises or returns the words.
\<close>

record page =
  rect_height :: real
  get_text_words :: "exn + word list"

record document =
  pages :: "page list"

type_synonym fitz = "string \<Rightarrow> exn + document"

definition invalid_msg :: string where
  "invalid_msg = ''Invalid page index or field coordinates for contextual analysis.''"

definition error_prefix :: string where
  "error_prefix = ''Error during contextual text extraction: ''"

definition out_of_bounds_msg :: "int \<Rightarrow> string" where
  "out_of_bounds_msg page_index =
     ''Page index '' @ str_int page_index @ '' out of bounds for PyMuPDF.''"

text \<open>
  The body of the \<^verbatim>\<open>try\<close> block: the result or the exception raised inside it, and the
  handle events up to that point.
\<close>

definition context_try ::
  "fitz \<Rightarrow> string \<Rightarrow> int \<Rightarrow> real list \<Rightarrow> (exn + string) \<times> event list" where
  "context_try fitz_open pdf_path page_index field_rect_coords =
     (case fitz_open pdf_path of
        Inl e \<Rightarrow> (Inl e, [])
      | Inr doc \<Rightarrow>
          if page_index \<ge> int (length (pages doc))
          then (Inr (out_of_bounds_msg page_index), [FitzOpen, FitzClose])
          else
            let page = pages doc ! nat page_index in
            (case field_rect_coords of
               [f_x0, f_lly, f_x1, f_ury] \<Rightarrow>
                 (case get_text_words page of
                    Inl e \<Rightarrow> (Inl e, [FitzOpen])
                  | Inr words_raw \<Rightarrow>
                      let height = rect_height page;
                          actual_left_text_list =
                            map c_text (left_items height f_x0 f_lly f_ury words_raw);
                          actual_above_text_list =
                            map c_text (above_items height f_x0 f_lly f_x1 f_ury words_raw);
                          actual_closest_text_list =
                            map c_text (closest_items height f_x0 f_lly f_x1 f_ury words_raw)
                      in (Inr (assemble actual_closest_text_list actual_left_text_list
                                 actual_above_text_list),
                          [FitzOpen, FitzClose]))
             | _ \<Rightarrow> (Inl (PyErr ''ValueError'' ''wrong number of values to unpack''), [FitzOpen])))"

text \<open>
  The function itself: the validation in front of the \<^verbatim>\<open>try\<close>, then the \<^verbatim>\<open>try\<close> with
  its \<^verbatim>\<open>except Exception as e\<close>. The rectangle is \<open>None\<close> when the caller passes
  \<^verbatim>\<open>None\<close>. The result is a sum so that an exception leaving the function would be
  visible as \<open>Inl\<close>.
\<close>

definition get_contextual_text_for_field ::
  "fitz \<Rightarrow> string \<Rightarrow> int \<Rightarrow> real list option \<Rightarrow> (exn + string) \<times> event list" where
  "get_contextual_text_for_field fitz_open pdf_path page_index field_rect_coords =
     (case field_rect_coords of
        None \<Rightarrow> (Inr invalid_msg, [])
      | Some coords \<Rightarrow>
          if page_index < 0 \<or> coords = [] \<or> length coords \<noteq> 4
          then (Inr invalid_msg, [])
          else
            (case context_try fitz_open pdf_path page_index coords of
               (Inr s, evs) \<Rightarrow> (Inr s, evs)
             | (Inl e, evs) \<Rightarrow> (Inr (error_prefix @ exn_msg e), evs)))"

section \<open>The heuristics with the float tests left open\<close>

text \<open>
  The interpreter evaluates the conditions of lines 100 to 113 and 136 to 139 and the
  distance of lines 151 to 167 in binary floating point, where a subtraction or an
  addition may round. In this second form of the function their outcomes are parameters:
  \<open>left_test height f_x0 f_lly f_ury w\<close> and \<open>above_test height f_x0 f_x1 f_ury w\<close> say
  whether the word \<open>w\<close> passes the condition of its pass, and
  \<open>dist_sq height f_x0 f_lly f_x1 f_ury w\<close> is the float \<^verbatim>\<open>distance_sq\<close> of the word. All else
  is as the code has it: the claimed identities, the sort keys (the negation of a float
  is exact and floats compare as their values), the slice \<^verbatim>\<open>[:3]\<close>, the assembly, the
  validation and the \<^verbatim>\<open>try\<close>. With \<open>left_qualifies\<close>, \<open>above_qualifies\<close> and
  \<open>distance_sq\<close> for the parameters it is the function of the section before.
\<close>

type_synonym left_test = "real \<Rightarrow> real \<Rightarrow> real \<Rightarrow> real \<Rightarrow> word \<Rightarrow> bool"
type_synonym above_test = "real \<Rightarrow> real \<Rightarrow> real \<Rightarrow> real \<Rightarrow> word \<Rightarrow> bool"
type_synonym dist_fun = "real \<Rightarrow> real \<Rightarrow> real \<Rightarrow> real \<Rightarrow> real \<Rightarrow> word \<Rightarrow> real"

definition left_items_with ::
  "left_test \<Rightarrow> real \<Rightarrow> real \<Rightarrow> real \<Rightarrow> real \<Rightarrow> word list \<Rightarrow> left_cand list" where
  "left_items_with left_test height f_x0 f_lly f_ury words_raw =
     take 3 (sort_key (\<lambda>x. (- c_x1 x, c_y0 x))
       (map (\<lambda>w. \<lparr>c_text = word_text w, c_id = word_id w, c_x1 = w_x1 w, c_y0 = w_y0 w\<rparr>)
          (filter (left_test height f_x0 f_lly f_ury) words_raw)))"

definition above_items_with ::
  "left_test \<Rightarrow> above_test \<Rightarrow> real \<Rightarrow> real \<Rightarrow> real \<Rightarrow> real \<Rightarrow> real \<Rightarrow> word list
     \<Rightarrow> above_cand list" where
  "above_items_with left_test above_test height f_x0 f_lly f_x1 f_ury words_raw =
     (let claimed_word_ids =
            set (map c_id (left_items_with left_test height f_x0 f_lly f_ury words_raw))
      in take 3 (sort_key (\<lambda>x. (- c_y1 x, c_x0 x))
           (map (\<lambda>w. \<lparr>c_text = word_text w, c_id = word_id w, c_y1 = w_y1 w, c_x0 = w_x0 w\<rparr>)
              (filter (\<lambda>w. word_id w \<notin> claimed_word_ids
                           \<and> above_test height f_x0 f_x1 f_ury w)
                 words_raw))))"

definition closest_items_with ::
  "left_test \<Rightarrow> above_test \<Rightarrow> dist_fun \<Rightarrow> real \<Rightarrow> real \<Rightarrow> real \<Rightarrow> real \<Rightarrow> real
     \<Rightarrow> word list \<Rightarrow> closest_cand list" where
  "closest_items_with left_test above_test dist_sq height f_x0 f_lly f_x1 f_ury words_raw =
     (let claimed_word_ids =
            set (map c_id (left_items_with left_test height f_x0 f_lly f_ury words_raw))
            \<union> set (map c_id (above_items_with left_test above_test
                                 height f_x0 f_lly f_x1 f_ury words_raw))
      in take 3 (sort_key c_distance
           (map (\<lambda>w. \<lparr>c_text = word_text w, c_id = word_id w,
                       c_distance = dist_sq height f_x0 f_lly f_x1 f_ury w\<rparr>)
              (filter (\<lambda>w. word_id w \<notin> claimed_word_ids
                           \<and> dist_sq height f_x0 f_lly f_x1 f_ury w
                               < MAX_RELEVANT_DISTANCE_SQ_OVERALL)
                 words_raw))))"

definition context_try_with ::
  "left_test \<Rightarrow> above_test \<Rightarrow> dist_fun \<Rightarrow> fitz \<Rightarrow> string \<Rightarrow> int \<Rightarrow> real list
     \<Rightarrow> (exn + string) \<times> event list" where
  "context_try_with left_test above_test dist_sq fitz_open pdf_path page_index field_rect_coords =
     (case fitz_open pdf_path of
        Inl e \<Rightarrow> (Inl e, [])
      | Inr doc \<Rightarrow>
          if page_index \<ge> int (length (pages doc))
          then (Inr (out_of_bounds_msg page_index), [FitzOpen, FitzClose])
          else
            let page = pages doc ! nat page_index in
            (case field_rect_coords of
               [f_x0, f_lly, f_x1, f_ury] \<Rightarrow>
                 (case get_text_words page of
                    Inl e \<Rightarrow> (Inl e, [FitzOpen])
                  | Inr words_raw \<Rightarrow>
                      let height = rect_height page;
                          actual_left_text_list =
                            map c_text (left_items_with left_test
                                          height f_x0 f_lly f_ury words_raw);
                          actual_above_text_list =
                            map c_text (above_items_with left_test above_test
                                          height f_x0 f_lly f_x1 f_ury words_raw);
                          actual_closest_text_list =
                            map c_text (closest_items_with left_test above_test dist_sq
                                          height f_x0 f_lly f_x1 f_ury words_raw)
                      in (Inr (assemble actual_closest_text_list actual_left_text_list
                                 actual_above_text_list),
                          [FitzOpen, FitzClose]))
             | _ \<Rightarrow> (Inl (PyErr ''ValueError'' ''wrong number of values to unpack''), [FitzOpen])))"

definition get_contextual_text_for_field_with ::
  "left_test \<Rightarrow> above_test \<Rightarrow> dist_fun \<Rightarrow> fitz \<Rightarrow> string \<Rightarrow> int \<Rightarrow> real list option
     \<Rightarrow> (exn + string) \<times> event list" where
  "get_contextual_text_for_field_with left_test above_test dist_sq
       fitz_open pdf_path page_index field_rect_coords =
     (case field_rect_coords of
        None \<Rightarrow> (Inr invalid_msg, [])
      | Some coords \<Rightarrow>
          if page_index < 0 \<or> coords = [] \<or> length coords \<noteq> 4
          then (Inr invalid_msg, [])
          else
            (case context_try_with left_test above_test dist_sq
                    fitz_open pdf_path page_index coords of
               (Inr s, evs) \<Rightarrow> (Inr s, evs)
             | (Inl e, evs) \<Rightarrow> (Inr (error_prefix @ exn_msg e), evs)))"

section \<open>PDF objects as pikepdf gives them\<close>

text \<open>
  The objects of a PDF file. Names keep their leading slash, as \<^verbatim>\<open>str(pikepdf.Name)\<close>
  shows them (\<^verbatim>\<open>"/Tx"\<close>, \<^verbatim>\<open>"/Off"\<close>). A dictionary is the list of its entries in the
  order in which \<^verbatim>\<open>keys()\<close> enumerates them. A field is a dictionary.
\<close>

datatype pdf_obj =
    PNull
  | PBoolean bool
  | PInteger int
  | PReal real
  | PString string
  | PName string
  | PArray "pdf_obj list"
  | PDictionary "(string \<times> pdf_obj) list"

type_synonym pdf_dict = "(string \<times> pdf_obj) list"

text \<open>
  An open \<^verbatim>\<open>pikepdf.Pdf\<close>, as far as the tools read it: \<open>None\<close> when the document root
  has no \<^verbatim>\<open>/AcroForm\<close>, otherwise the field dictionaries of its \<^verbatim>\<open>/Fields\<close> array
  (the empty list when the key is absent).
\<close>

record pdf =
  acro_form :: "pdf_dict list option"

text \<open>
  \<^verbatim>\<open>str(x)\<close> on a PDF object: a string gives its text, a name gives the name, an integer
  its digits, a boolean \<^verbatim>\<open>True\<close>/\<^verbatim>\<open>False\<close>. What the library prints for the other
  objects is the parameter \<open>repr\<close>.
\<close>

fun py_str :: "(pdf_obj \<Rightarrow> string) \<Rightarrow> pdf_obj \<Rightarrow> string" where
  "py_str repr (PString s) = s"
| "py_str repr (PName n) = n"
| "py_str repr (PInteger i) = str_int i"
| "py_str repr (PBoolean b) = (if b then ''True'' else ''False'')"
| "py_str repr x = repr x"

text \<open>
  \<^verbatim>\<open>float(x)\<close> and \<^verbatim>\<open>int(x)\<close>: defined on numbers and booleans, \<^verbatim>\<open>TypeError\<close> otherwise.
  Only the class of the exception is fixed here; its text is what the library gives for
  the object, the parameter \<open>err_text\<close>.
\<close>

fun py_float :: "(pdf_obj \<Rightarrow> string) \<Rightarrow> pdf_obj \<Rightarrow> exn + real" where
  "py_float err_text (PInteger i) = Inr (of_int i)"
| "py_float err_text (PReal r) = Inr r"
| "py_float err_text (PBoolean b) = Inr (if b then 1 else 0)"
| "py_float err_text x = Inl (PyErr ''TypeError'' (err_text x))"

fun py_int :: "(pdf_obj \<Rightarrow> string) \<Rightarrow> pdf_obj \<Rightarrow> exn + int" where
  "py_int err_text (PInteger i) = Inr i"
| "py_int err_text (PReal r) = Inr (if r \<ge> 0 then \<lfloor>r\<rfloor> else \<lceil>r\<rceil>)"
| "py_int err_text (PBoolean b) = Inr (if b then 1 else 0)"
| "py_int err_text x = Inl (PyErr ''TypeError'' (err_text x))"

text \<open>The comprehension \<^verbatim>\<open>[float(r) for r in xs]\<close>: the first failing element raises.\<close>

fun float_list :: "(pdf_obj \<Rightarrow> string) \<Rightarrow> pdf_obj list \<Rightarrow> exn + real list" where
  "float_list err_text [] = Inr []"
| "float_list err_text (r # rs) =
     (case py_float err_text r of
        Inl e \<Rightarrow> Inl e
      | Inr v \<Rightarrow>
          (case float_list err_text rs of Inl e \<Rightarrow> Inl e | Inr vs \<Rightarrow> Inr (v # vs)))"

text \<open>
  \<^verbatim>\<open>[float(r) for r in field.get("/Rect", [])]\<close>. Iterating an array gives its elements;
  iterating a dictionary gives its keys, which are Python strings and no numbers
  (\<^verbatim>\<open>ValueError\<close>); nothing else iterates (\<^verbatim>\<open>TypeError\<close>).
\<close>

definition rect_of :: "(pdf_obj \<Rightarrow> string) \<Rightarrow> pdf_dict \<Rightarrow> exn + real list" where
  "rect_of err_text field =
     (case map_of field ''/Rect'' of
        None \<Rightarrow> Inr []
      | Some (PArray xs) \<Rightarrow> float_list err_text xs
      | Some (PDictionary []) \<Rightarrow> Inr []
      | Some (PDictionary (kv # kvs)) \<Rightarrow>
          Inl (PyErr ''ValueError'' (err_text (PDictionary (kv # kvs))))
      | Some x \<Rightarrow> Inl (PyErr ''TypeError'' (err_text x)))"

text \<open>The class of the exception a call raised, if it raised one.\<close>

definition raised_class :: "exn + 'a \<Rightarrow> string option" where
  "raised_class r = (case r of Inl e \<Rightarrow> Some (exn_type e) | Inr v \<Rightarrow> None)"

definition get_or :: "pdf_dict \<Rightarrow> string \<Rightarrow> pdf_obj \<Rightarrow> pdf_obj" where
  "get_or d key dflt = (case map_of d key of None \<Rightarrow> dflt | Some v \<Rightarrow> v)"

section \<open>get_field_options\<close>

fun option_of_item :: "(pdf_obj \<Rightarrow> string) \<Rightarrow> pdf_obj \<Rightarrow> string list" where
  "option_of_item repr (PString s) = [s]"
| "option_of_item repr (PArray [a, b]) =
     (case b of
        PString s \<Rightarrow> [s]
      | _ \<Rightarrow> (case a of
                PString s \<Rightarrow> [s]
              | _ \<Rightarrow> [''[Non-string option: '' @ py_str repr a @ '', '' @ py_str repr b @ '']'']))"
| "option_of_item repr (PName n) = [n]"
| "option_of_item repr x = []"

definition get_field_options :: "(pdf_obj \<Rightarrow> string) \<Rightarrow> pdf_dict \<Rightarrow> string list" where
  "get_field_options repr field_obj =
     (case map_of field_obj ''/Opt'' of
        Some (PArray opt_array) \<Rightarrow> concat (map (option_of_item repr) opt_array)
      | _ \<Rightarrow> [])"

section \<open>extract_form_fields\<close>

record field_record =
  r_name :: string
  r_type :: string
  r_rect :: "real list"
  r_page :: string
  r_opts :: "string list"
  r_text :: string

text \<open>What pikepdf gives: \<^verbatim>\<open>pikepdf.Pdf.open\<close> raises or returns a document.\<close>

type_synonym pike = "string \<Rightarrow> exn + pdf"

text \<open>
  One dictionary literal of the loop body. Python evaluates its entries in the order
  written: \<^verbatim>\<open>"rect"\<close> before \<^verbatim>\<open>"text"\<close>, and inside \<^verbatim>\<open>"text"\<close> the page index before
  the rectangle. Nothing here is inside a \<^verbatim>\<open>try\<close>.
\<close>

definition extract_field ::
  "fitz \<Rightarrow> (pdf_obj \<Rightarrow> string) \<Rightarrow> (pdf_obj \<Rightarrow> string) \<Rightarrow> string \<Rightarrow> pdf_dict
     \<Rightarrow> (exn + field_record) \<times> event list" where
  "extract_field fitz_open repr err_text pdf_path field =
     (let name = py_str repr (get_or field ''/T'' (PString ''''));
          type = py_str repr (get_or field ''/FT'' (PString ''''))
      in case rect_of err_text field of
           Inl e \<Rightarrow> (Inl e, [])
         | Inr rect \<Rightarrow>
             let page = py_str repr (get_or field ''/Page'' (PInteger 0));
                 opts = get_field_options repr field
             in (case py_int err_text (get_or field ''/Page'' (PInteger 0)) of
                   Inl e \<Rightarrow> (Inl e, [])
                 | Inr page_index \<Rightarrow>
                     (case rect_of err_text field of
                        Inl e \<Rightarrow> (Inl e, [])
                      | Inr coords \<Rightarrow>
                          (case get_contextual_text_for_field fitz_open pdf_path page_index
                                  (Some coords) of
                             (Inl e, evs) \<Rightarrow> (Inl e, evs)
                           | (Inr text, evs) \<Rightarrow>
                               (Inr \<lparr>r_name = name, r_type = type, r_rect = rect,
                                     r_page = page, r_opts = opts, r_text = text\<rparr>, evs)))))"

text \<open>The \<^verbatim>\<open>for\<close> loop with its \<^verbatim>\<open>fields.append\<close>: the first exception ends it.\<close>

fun extract_loop ::
  "fitz \<Rightarrow> (pdf_obj \<Rightarrow> string) \<Rightarrow> (pdf_obj \<Rightarrow> string) \<Rightarrow> string \<Rightarrow> pdf_dict list
     \<Rightarrow> (exn + field_record list) \<times> event list" where
  "extract_loop fitz_open repr err_text pdf_path [] = (Inr [], [])"
| "extract_loop fitz_open repr err_text pdf_path (field # rest) =
     (case extract_field fitz_open repr err_text pdf_path field of
        (Inl e, evs) \<Rightarrow> (Inl e, evs)
      | (Inr r, evs) \<Rightarrow>
          (case extract_loop fitz_open repr err_text pdf_path rest of
             (Inl e, evs') \<Rightarrow> (Inl e, evs @ evs')
           | (Inr rs, evs') \<Rightarrow> (Inr (r # rs), evs @ evs')))"

definition extract_form_fields ::
  "pike \<Rightarrow> fitz \<Rightarrow> (pdf_obj \<Rightarrow> string) \<Rightarrow> (pdf_obj \<Rightarrow> string) \<Rightarrow> string
     \<Rightarrow> (exn + field_record list) \<times> event list" where
  "extract_form_fields pike_open fitz_open repr err_text pdf_path =
     (case pike_open pdf_path of
        Inl e \<Rightarrow> (Inl e, [])
      | Inr pdf \<Rightarrow>
          (case acro_form pdf of
             None \<Rightarrow> (Inr [], [PikeOpen])
           | Some form_fields \<Rightarrow>
               (case extract_loop fitz_open repr err_text pdf_path form_fields of
                  (res, evs) \<Rightarrow> (res, PikeOpen # evs))))"

section \<open>fill_pdf_form\<close>

text \<open>
  The values of a field mapping, as \<^verbatim>\<open>json.load\<close> or the caller gives them: strings,
  booleans, integers and \<^verbatim>\<open>None\<close>. \<open>value_str\<close> is \<^verbatim>\<open>str(field_value)\<close>, which is also
  what an f-string prints for these values.
\<close>

datatype py_value = VStr string | VBool bool | VInt int | VNone

fun value_str :: "py_value \<Rightarrow> string" where
  "value_str (VStr s) = s"
| "value_str (VBool b) = (if b then ''True'' else ''False'')"
| "value_str (VInt i) = str_int i"
| "value_str VNone = ''None''"

type_synonym mapping = "string \<rightharpoonup> py_value"

text \<open>The argument \<^verbatim>\<open>field_mapping: Union[Dict[str, Any], str]\<close>.\<close>

datatype mapping_arg = MDict mapping | MPath string

text \<open>
  What the operating system and the libraries answer during one call:
  \<^verbatim>\<open>os.path.exists\<close>, \<^verbatim>\<open>json.load\<close> of an opened file (an exception, or the loaded value:
  \<open>None\<close> when the JSON text is not an object), \<^verbatim>\<open>os.path.dirname\<close>, \<^verbatim>\<open>os.makedirs\<close> and
  \<^verbatim>\<open>pdf.save\<close> (each: the exception raised, if any).
\<close>

record os_env =
  path_exists :: "string \<Rightarrow> bool"
  json_load :: "string \<Rightarrow> exn + mapping option"
  dirname :: "string \<Rightarrow> string"
  makedirs :: "string \<Rightarrow> exn option"
  pdf_save :: "string \<Rightarrow> exn option"

text \<open>\<^verbatim>\<open>field[key] = v\<close>: replaces the entry, or adds it at the end.\<close>

definition set_item :: "pdf_dict \<Rightarrow> string \<Rightarrow> pdf_obj \<Rightarrow> pdf_dict" where
  "set_item field key v = AList.update key v field"

text \<open>\<^verbatim>\<open>'{field_name}'\<close> inside an f-string.\<close>

definition quoted :: "string \<Rightarrow> string" where
  "quoted s = [CHR 0x27] @ s @ [CHR 0x27]"

text \<open>
  \<^verbatim>\<open>pikepdf.Name(s)\<close>: the library makes a name only from a text that begins with a slash
  and has a character after it; otherwise the constructor raises \<^verbatim>\<open>ValueError\<close>.
\<close>

definition pikepdf_Name :: "string \<Rightarrow> exn + pdf_obj" where
  "pikepdf_Name s =
     (if length s < 2
      then Inl (PyErr ''ValueError'' ''Name must be at least one character long'')
      else if hd s \<noteq> CHR ''/''
      then Inl (PyErr ''ValueError'' (''Name objects must begin with '' @ quoted ''/''))
      else Inr (PName s))"

text \<open>
  The value for a checked box (lines 87 to 106 of the filler). The guards
  \<^verbatim>\<open>if ap_dict and "/N" in ap_dict\<close> and \<^verbatim>\<open>hasattr(n_dict, 'keys')\<close> are read as: the
  entry is a dictionary. The \<^verbatim>\<open>for\<close> ... \<^verbatim>\<open>break\<close> ... \<^verbatim>\<open>else\<close> takes the first key whose
  text is not \<^verbatim>\<open>"/Off"\<close>; \<^verbatim>\<open>keys()\<close> gives the keys as Python strings, and a Python
  string assigned to a dictionary entry is stored as a PDF string. When the loop ends
  without such a key, and in the two other \<^verbatim>\<open>else\<close> branches, the value is
  \<^verbatim>\<open>pikepdf.Name("Yes")\<close>.
\<close>

definition on_state :: "pdf_dict \<Rightarrow> exn + pdf_obj" where
  "on_state field =
     (case get_or field ''/AP'' (PDictionary []) of
        PDictionary ap_dict \<Rightarrow>
          (case map_of ap_dict ''/N'' of
             Some (PDictionary n_dict) \<Rightarrow>
               (case find (\<lambda>key. key \<noteq> ''/Off'') (map fst n_dict) of
                  Some key \<Rightarrow> Inr (PString key)
                | None \<Rightarrow> pikepdf_Name ''Yes'')
           | Some _ \<Rightarrow> pikepdf_Name ''Yes''
           | None \<Rightarrow> pikepdf_Name ''Yes'')
      | _ \<Rightarrow> pikepdf_Name ''Yes'')"

text \<open>
  The branch for \<^verbatim>\<open>/Btn\<close> (lines 83 to 113): the field afterwards, or the exception
  raised. An exception is raised by the constructor, before anything is assigned.
\<close>

definition btn_write :: "pdf_dict \<Rightarrow> py_value \<Rightarrow> exn + pdf_dict" where
  "btn_write field field_value =
     (case field_value of
        VBool b \<Rightarrow>
          if b then
            (case on_state field of
               Inl e \<Rightarrow> Inl e
             | Inr key \<Rightarrow> Inr (set_item (set_item field ''/V'' key) ''/AS'' key))
          else
            (case pikepdf_Name ''Off'' of
               Inl e \<Rightarrow> Inl e
             | Inr off \<Rightarrow> Inr (set_item (set_item field ''/V'' off) ''/AS'' off))
      | _ \<Rightarrow> Inr (set_item field ''/V'' (PString (value_str field_value))))"

text \<open>
  One pass of the loop body: the field afterwards, what it adds to \<^verbatim>\<open>filled_count\<close>, and
  the lines it prints. The inner \<^verbatim>\<open>except Exception as e\<close> prints a warning and leaves
  the count as it is.
\<close>

definition fill_field ::
  "(pdf_obj \<Rightarrow> string) \<Rightarrow> mapping \<Rightarrow> pdf_dict \<Rightarrow> pdf_dict \<times> nat \<times> string list" where
  "fill_field repr field_mapping field =
     (let field_name = py_str repr (get_or field ''/T'' (PString ''''))
      in case field_mapping field_name of
           None \<Rightarrow> (field, 0, [''Info: No mapping found for field '' @ quoted field_name])
         | Some field_value \<Rightarrow>
             let field_type = py_str repr (get_or field ''/FT'' (PString ''''))
             in if field_type = ''/Tx'' then
                  (set_item field ''/V'' (PString (value_str field_value)), 1,
                   [''Filled text field '' @ quoted field_name @ '': '' @ value_str field_value])
                else if field_type = ''/Ch'' then
                  (set_item field ''/V'' (PString (value_str field_value)), 1,
                   [''Filled choice field '' @ quoted field_name @ '': ''
                      @ value_str field_value])
                else if field_type = ''/Btn'' then
                  (case btn_write field field_value of
                     Inl e \<Rightarrow>
                       (field, 0,
                        [''Warning: Could not fill field '' @ quoted field_name @ '': ''
                           @ exn_msg e])
                   | Inr field' \<Rightarrow>
                       (field', 1,
                        [''Filled button field '' @ quoted field_name @ '': ''
                           @ value_str field_value]))
                else
                  (set_item field ''/V'' (PString (value_str field_value)), 1,
                   [''Filled field '' @ quoted field_name @ '' (type '' @ field_type @ ''): ''
                      @ value_str field_value]))"

text \<open>
  The loop over \<^verbatim>\<open>acro_form.get("/Fields", [])\<close>: the fields afterwards,
  \<^verbatim>\<open>filled_count\<close>, \<^verbatim>\<open>total_fields\<close> and the printed lines.
\<close>

fun fill_fields ::
  "(pdf_obj \<Rightarrow> string) \<Rightarrow> mapping \<Rightarrow> pdf_dict list
     \<Rightarrow> pdf_dict list \<times> nat \<times> nat \<times> string list" where
  "fill_fields repr field_mapping [] = ([], 0, 0, [])"
| "fill_fields repr field_mapping (field # rest) =
     (case fill_field repr field_mapping field of
        (field', c, ls) \<Rightarrow>
          (case fill_fields repr field_mapping rest of
             (rest', filled_count, total_fields, lss) \<Rightarrow>
               (field' # rest', c + filled_count, 1 + total_fields, ls @ lss)))"

record fill_result =
  ok :: bool
  printed :: "string list"
  events :: "event list"
  saved :: "(string \<times> pdf) option"

definition fill_failed :: "exn \<Rightarrow> string list \<Rightarrow> event list \<Rightarrow> fill_result" where
  "fill_failed e ls evs =
     \<lparr>ok = False,
      printed = ls @ [''Error filling PDF: '' @ exn_type e @ '' - '' @ exn_msg e],
      events = evs, saved = None\<rparr>"

definition early_exit :: "string \<Rightarrow> fill_result" where
  "early_exit msg = \<lparr>ok = False, printed = [msg], events = [], saved = None\<rparr>"

text \<open>The outer \<^verbatim>\<open>try\<close> block with its \<^verbatim>\<open>except Exception as e\<close>.\<close>

definition fill_try ::
  "os_env \<Rightarrow> pike \<Rightarrow> (pdf_obj \<Rightarrow> string) \<Rightarrow> string \<Rightarrow> mapping \<Rightarrow> string \<Rightarrow> fill_result" where
  "fill_try os pike_open repr input_pdf_path field_mapping output_pdf_path =
     (case pike_open input_pdf_path of
        Inl e \<Rightarrow> fill_failed e [] []
      | Inr pdf \<Rightarrow>
          (case acro_form pdf of
             None \<Rightarrow>
               \<lparr>ok = False, printed = [''Error: PDF does not contain form fields.''],
                events = [PikeOpen, PikeClose], saved = None\<rparr>
           | Some form_fields \<Rightarrow>
               (case fill_fields repr field_mapping form_fields of
                  (fields', filled_count, total_fields, ls) \<Rightarrow>
                    let output_dir = dirname os output_pdf_path
                    in (case (if output_dir \<noteq> [] \<and> \<not> path_exists os output_dir
                              then makedirs os output_dir else None) of
                          Some e \<Rightarrow> fill_failed e ls [PikeOpen]
                        | None \<Rightarrow>
                            (case pdf_save os output_pdf_path of
                               Some e \<Rightarrow> fill_failed e ls [PikeOpen]
                             | None \<Rightarrow>
                                 \<lparr>ok = True,
                                  printed = ls @
                                    [''Success: Filled '' @ str_int (int filled_count)
                                       @ '' out of '' @ str_int (int total_fields)
                                       @ '' fields.'',
                                     ''Filled PDF saved to: '' @ output_pdf_path],
                                  events = [PikeOpen, PikeClose],
                                  saved = Some (output_pdf_path,
                                                pdf\<lparr>acro_form := Some fields'\<rparr>)\<rparr>)))))"

definition fill_checked ::
  "os_env \<Rightarrow> pike \<Rightarrow> (pdf_obj \<Rightarrow> string) \<Rightarrow> string \<Rightarrow> mapping \<Rightarrow> string \<Rightarrow> fill_result" where
  "fill_checked os pike_open repr input_pdf_path field_mapping output_pdf_path =
     (if \<not> path_exists os input_pdf_path
      then early_exit (''Error: Input PDF file '' @ input_pdf_path @ '' not found.'')
      else fill_try os pike_open repr input_pdf_path field_mapping output_pdf_path)"

definition fill_pdf_form ::
  "os_env \<Rightarrow> pike \<Rightarrow> (pdf_obj \<Rightarrow> string) \<Rightarrow> string \<Rightarrow> mapping_arg \<Rightarrow> string
     \<Rightarrow> fill_result" where
  "fill_pdf_form os pike_open repr input_pdf_path field_mapping output_pdf_path =
     (case field_mapping of
        MPath p \<Rightarrow>
          if \<not> path_exists os p
          then early_exit (''Error: Field mapping file '' @ p @ '' not found.'')
          else
            (case json_load os p of
               Inl e \<Rightarrow> early_exit (''Error reading field mapping file: '' @ exn_msg e)
             | Inr None \<Rightarrow>
                 early_exit ''Error: Field mapping must be a dictionary or path to JSON file.''
             | Inr (Some m) \<Rightarrow>
                 fill_checked os pike_open repr input_pdf_path m output_pdf_path)
      | MDict m \<Rightarrow> fill_checked os pike_open repr input_pdf_path m output_pdf_path)"

text \<open>Every handle that was opened has been closed.\<close>

definition handles_closed :: "event list \<Rightarrow> bool" where
  "handles_closed evs =
     (count_list evs FitzOpen = count_list evs FitzClose
      \<and> count_list evs PikeOpen = count_list evs PikeClose)"

text \<open>
  For stating what a checked box gets: the keys of the field's appearance-state dictionary
  (\<^verbatim>\<open>/AP\<close>, then \<^verbatim>\<open>/N\<close>), in enumeration order; no keys when either is missing or is no
  dictionary. This follows the specification's wording and is compared with \<open>on_state\<close>.
\<close>

definition appearance_state_keys :: "pdf_dict \<Rightarrow> string list" where
  "appearance_state_keys field =
     (case map_of field ''/AP'' of
        Some (PDictionary ap_dict) \<Rightarrow>
          (case map_of ap_dict ''/N'' of
             Some (PDictionary n_dict) \<Rightarrow> map fst n_dict
           | _ \<Rightarrow> [])
      | _ \<Rightarrow> [])"

section \<open>Sample documents\<close>

text \<open>
  A page of height 792 with three words around the field rectangle (100, 700, 200, 715):
  one to its left, one above it, one to its right.
\<close>

definition sample_words :: "word list" where
  "sample_words =
     [\<lparr>w_x0 = 30, w_y0 = 75, w_x1 = 65, w_y1 = 85, word_text = ''Name:'',
       block_no = 0, line_no = 0, word_no = 0\<rparr>,
      \<lparr>w_x0 = 100, w_y0 = 60, w_x1 = 130, w_y1 = 70, word_text = ''Full'',
       block_no = 0, line_no = 1, word_no = 0\<rparr>,
      \<lparr>w_x0 = 210, w_y0 = 75, w_x1 = 240, w_y1 = 85, word_text = ''here'',
       block_no = 0, line_no = 0, word_no = 1\<rparr>]"

definition sample_doc :: document where
  "sample_doc = \<lparr>pages = [\<lparr>rect_height = 792, get_text_words = Inr sample_words\<rparr>]\<rparr>"

text \<open>A page whose only word is far from that rectangle.\<close>

definition far_word :: word where
  "far_word =
     \<lparr>w_x0 = 400, w_y0 = 500, w_x1 = 450, w_y1 = 510, word_text = ''Footer'',
      block_no = 3, line_no = 0, word_no = 0\<rparr>"

definition far_words :: "word list" where
  "far_words = [far_word]"

definition far_doc :: document where
  "far_doc = \<lparr>pages = [\<lparr>rect_height = 792, get_text_words = Inr far_words\<rparr>]\<rparr>"

text \<open>The word of the one-word form: \<^verbatim>\<open>"Name:"\<close> at the top-origin box (30, 75, 65, 85).\<close>

definition name_word :: "int \<Rightarrow> int \<Rightarrow> int \<Rightarrow> word" where
  "name_word b l n =
     \<lparr>w_x0 = 30, w_y0 = 75, w_x1 = 65, w_y1 = 85, word_text = ''Name:'',
      block_no = b, line_no = l, word_no = n\<rparr>"

definition name_doc :: "int \<Rightarrow> int \<Rightarrow> int \<Rightarrow> document" where
  "name_doc b l n =
     \<lparr>pages = [\<lparr>rect_height = 792, get_text_words = Inr [name_word b l n]\<rparr>]\<rparr>"

text \<open>A form with a text field and a check box, and what the system answers.\<close>

definition checkbox_field :: pdf_dict where
  "checkbox_field =
     [(''/T'', PString ''Agree''), (''/FT'', PName ''/Btn''),
      (''/AP'', PDictionary [(''/N'', PDictionary [(''/Off'', PDictionary []),
                                                   (''/On'', PDictionary [])])]),
      (''/V'', PName ''/On''), (''/AS'', PName ''/On'')]"

definition text_field :: pdf_dict where
  "text_field = [(''/T'', PString ''Name''), (''/FT'', PName ''/Tx'')]"

definition form_pdf :: pdf where
  "form_pdf = \<lparr>acro_form = Some [text_field, checkbox_field]\<rparr>"

definition quiet_os :: os_env where
  "quiet_os =
     \<lparr>path_exists = (\<lambda>p. True), json_load = (\<lambda>p. Inr None), dirname = (\<lambda>p. []),
      makedirs = (\<lambda>p. None), pdf_save = (\<lambda>p. None)\<rparr>"

definition plain_repr :: "pdf_obj \<Rightarrow> string" where
  "plain_repr x = ''<object>''"

definition plain_err :: "pdf_obj \<Rightarrow> string" where
  "plain_err x = ''<error text>''"

definition ghost_mapping :: mapping where
  "ghost_mapping = [''Ghost'' \<mapsto> VStr ''x'']"

definition alice_mapping :: mapping where
  "alice_mapping = [''Name'' \<mapsto> VStr ''Alice'', ''Ghost'' \<mapsto> VStr ''x'']"

text \<open>
  Fields with a rectangle of four numbers, of three numbers, with a name among the
  numbers, and with a name for the page.
\<close>

definition bad_rect_field :: pdf_dict where
  "bad_rect_field =
     [(''/T'', PString ''Date''), (''/FT'', PName ''/Tx''),
      (''/Rect'', PArray [PInteger 100, PInteger 700, PName ''/x'', PInteger 715])]"

definition short_rect_field :: pdf_dict where
  "short_rect_field =
     [(''/T'', PString ''City''), (''/FT'', PName ''/Tx''),
      (''/Rect'', PArray [PInteger 100, PInteger 700, PInteger 200])]"

definition bad_page_field :: pdf_dict where
  "bad_page_field =
     [(''/T'', PString ''Zip''), (''/FT'', PName ''/Tx''),
      (''/Rect'', PArray [PInteger 100, PInteger 700, PInteger 200, PInteger 715]),
      (''/Page'', PName ''/first'')]"

definition name_field :: pdf_dict where
  "name_field =
     [(''/T'', PString ''Name''), (''/FT'', PName ''/Tx''),
      (''/Rect'', PArray [PInteger 100, PInteger 700, PInteger 200, PInteger 715])]"

definition unreadable_doc :: document where
  "unreadable_doc =
     \<lparr>pages = [\<lparr>rect_height = 792,
                 get_text_words = Inl (PyErr ''RuntimeError'' ''cannot read page'')\<rparr>]\<rparr>"

definition failing_save_os :: os_env where
  "failing_save_os =
     \<lparr>path_exists = (\<lambda>p. True), json_load = (\<lambda>p. Inr None), dirname = (\<lambda>p. []),
      makedirs = (\<lambda>p. None),
      pdf_save = (\<lambda>p. Some (PyErr ''PermissionError'' ''cannot write''))\<rparr>"

definition broken_form_pdf :: pdf where
  "broken_form_pdf = \<lparr>acro_form = Some [name_field, bad_rect_field]\<rparr>"

definition bad_page_form_pdf :: pdf where
  "bad_page_form_pdf = \<lparr>acro_form = Some [name_field, bad_page_field]\<rparr>"

definition short_form_pdf :: pdf where
  "short_form_pdf = \<lparr>acro_form = Some [name_field, short_rect_field]\<rparr>"

definition plain_pdf :: pdf where
  "plain_pdf = \<lparr>acro_form = None\<rparr>"

text \<open>The Python floats \<^verbatim>\<open>792.0\<close>, \<^verbatim>\<open>100.1\<close> and \<^verbatim>\<open>0.5\<close>.\<close>

definition float_792 :: dbl where
  "float_792 = (792, 0)"

definition float_100_1 :: dbl where
  "float_100_1 = (3521955646092083, - 45)"

definition float_0_5 :: dbl where
  "float_0_5 = (1, - 1)"

section \<open>Properties of the proximity heuristics\<close>

lemma set_take_sort_key: "set (take n (sort_key f xs)) \<subseteq> set xs"
  by (metis set_sort set_take_subset)

text \<open>
  C1. Within one call for one field, a word identity (block, line, word number) is used by
  at most one of the three heuristics: the identities of the words kept by the left
  heuristic, by the above heuristic and by the nearest-overall heuristic are pairwise
  disjoint. So a word claimed by the left heuristic is in neither the above nor the
  closest segment, and a word claimed by the above heuristic is not in the closest one.
\<close>

theorem claimed_words_disjoint:
  "set (map c_id (left_items height f_x0 f_lly f_ury words_raw))
     \<inter> set (map c_id (above_items height f_x0 f_lly f_x1 f_ury words_raw)) = {}
   \<and> set (map c_id (left_items height f_x0 f_lly f_ury words_raw))
     \<inter> set (map c_id (closest_items height f_x0 f_lly f_x1 f_ury words_raw)) = {}
   \<and> set (map c_id (above_items height f_x0 f_lly f_x1 f_ury words_raw))
     \<inter> set (map c_id (closest_items height f_x0 f_lly f_x1 f_ury words_raw)) = {}"
proof -
  have above: "c_id ` set (above_items height f_x0 f_lly f_x1 f_ury words_raw)
                 \<inter> claimed_after_left height f_x0 f_lly f_ury words_raw = {}"
    using set_take_sort_key [of 3 "\<lambda>x. (- c_y1 x, c_x0 x)"]
    unfolding above_items_def above_texts_candidates_def by fastforce
  have closest: "c_id ` set (closest_items height f_x0 f_lly f_x1 f_ury words_raw)
                 \<inter> claimed_after_above height f_x0 f_lly f_x1 f_ury words_raw = {}"
    using set_take_sort_key [of 3 c_distance]
    unfolding closest_items_def closest_texts_candidates_def by fastforce
  show ?thesis
    using above closest unfolding claimed_after_above_def claimed_after_left_def by auto
qed

theorem claimed_words_disjoint_witness:
  "set (map c_id (left_items 792 100 700 715 sample_words))
     \<inter> set (map c_id (above_items 792 100 700 200 715 sample_words)) = {}
   \<and> set (map c_id (left_items 792 100 700 715 sample_words))
     \<inter> set (map c_id (closest_items 792 100 700 200 715 sample_words)) = {}
   \<and> set (map c_id (above_items 792 100 700 200 715 sample_words))
     \<inter> set (map c_id (closest_items 792 100 700 200 715 sample_words)) = {}"
  using claimed_words_disjoint [of 792 100 700 715 sample_words 200] by simp

subsection \<open>The one-word form\<close>

lemma name_left_items:
  "left_items 792 100 700 715 [name_word b l n]
   = [\<lparr>c_text = ''Name:'', c_id = (b, l, n), c_x1 = 65, c_y0 = 75\<rparr>]"
  by (simp add: name_word_def left_items_def left_texts_candidates_def left_qualifies_def
      is_vertically_aligned_def SEARCH_MARGIN_X_LEFT_def VERTICAL_ALIGNMENT_TOLERANCE_def
      word_id_def)

lemma name_above_items: "above_items 792 100 700 200 715 [name_word b l n] = []"
  by (simp add: above_items_def above_texts_candidates_def claimed_after_left_def
      name_left_items)
     (simp add: name_word_def word_id_def)

lemma name_closest_items: "closest_items 792 100 700 200 715 [name_word b l n] = []"
  by (simp add: closest_items_def closest_texts_candidates_def claimed_after_above_def
      claimed_after_left_def name_left_items name_above_items)
     (simp add: name_word_def word_id_def)

lemma name_word_left_qualifies: "left_qualifies 792 100 700 715 (name_word b l n)"
  by (simp add: name_word_def left_qualifies_def is_vertically_aligned_def
      SEARCH_MARGIN_X_LEFT_def VERTICAL_ALIGNMENT_TOLERANCE_def)

lemma name_word_in_radius:
  "distance_sq 792 100 700 200 715 (name_word b l n) < MAX_RELEVANT_DISTANCE_SQ_OVERALL"
  by (simp add: name_word_def distance_sq_def MAX_RELEVANT_DISTANCE_SQ_OVERALL_def)

lemma name_doc_context:
  "context_try (\<lambda>p. Inr (name_doc b l n)) pdf_path 0 [100, 700, 200, 715]
   = (Inr ''Left: Name:'', [FitzOpen, FitzClose])"
  by (simp add: context_try_def name_doc_def name_left_items name_above_items
      name_closest_items assemble_def contextual_texts_output_def segment_def)

text \<open>
  C2. A one-page document of page height 792 whose only word is "Name:" at the top-origin
  box (30, 75, 65, 85): for page index 0 and the bottom-origin rectangle
  (100, 700, 200, 715) the function returns exactly "Left: Name:" (and closes the
  document). The word qualifies for the left heuristic, and its centre is inside the
  nearest-overall radius, yet there is no Closest segment.
\<close>

theorem single_word_left_context:
  "get_contextual_text_for_field (\<lambda>p. Inr (name_doc b l n)) pdf_path 0
       (Some [100, 700, 200, 715])
     = (Inr ''Left: Name:'', [FitzOpen, FitzClose])
   \<and> left_qualifies 792 100 700 715 (name_word b l n)
   \<and> distance_sq 792 100 700 200 715 (name_word b l n) < 150 * 150"
  using name_word_in_radius [of b l n]
  by (simp add: get_contextual_text_for_field_def name_doc_context name_word_left_qualifies
      MAX_RELEVANT_DISTANCE_SQ_OVERALL_def)

theorem single_word_left_context_witness:
  "fst (get_contextual_text_for_field (\<lambda>p. Inr (name_doc 0 0 0)) ''form.pdf'' 0
          (Some [100, 700, 200, 715]))
     = Inr ''Left: Name:''"
  using single_word_left_context [of 0 0 0 "''form.pdf''"] by simp

subsection \<open>No exception leaves get_contextual_text_for_field\<close>

lemma context_try_open_fails:
  "fitz_open pdf_path = Inl e \<Longrightarrow> context_try fitz_open pdf_path page_index cs = (Inl e, [])"
  by (simp add: context_try_def)

text \<open>
  C3. The function always returns a string, never an exception. When the page index is
  negative, or the rectangle is missing, empty or not of length 4, it returns the literal
  "Invalid page index or field coordinates for contextual analysis.". Whenever the body of
  its try block raises an exception e, it returns
  "Error during contextual text extraction: " followed by the text of e.
\<close>

theorem get_contextual_text_never_raises:
  "(\<exists>s. fst (get_contextual_text_for_field fitz_open pdf_path page_index rect) = Inr s)
   \<and> (page_index < 0 \<or> rect = None \<or> rect = Some [] \<or> (\<exists>cs. rect = Some cs \<and> length cs \<noteq> 4)
        \<longrightarrow> get_contextual_text_for_field fitz_open pdf_path page_index rect
            = (Inr ''Invalid page index or field coordinates for contextual analysis.'', []))
   \<and> (\<forall>cs e evs. rect = Some cs \<and> 0 \<le> page_index \<and> length cs = 4
          \<and> context_try fitz_open pdf_path page_index cs = (Inl e, evs)
        \<longrightarrow> get_contextual_text_for_field fitz_open pdf_path page_index rect
            = (Inr (''Error during contextual text extraction: '' @ exn_msg e), evs))"
proof (intro conjI)
  show "\<exists>s. fst (get_contextual_text_for_field fitz_open pdf_path page_index rect) = Inr s"
    by (auto simp: get_contextual_text_for_field_def split: option.split sum.split prod.split)
next
  show "page_index < 0 \<or> rect = None \<or> rect = Some [] \<or> (\<exists>cs. rect = Some cs \<and> length cs \<noteq> 4)
        \<longrightarrow> get_contextual_text_for_field fitz_open pdf_path page_index rect
            = (Inr ''Invalid page index or field coordinates for contextual analysis.'', [])"
    by (auto simp: get_contextual_text_for_field_def invalid_msg_def split: option.split)
next
  show "\<forall>cs e evs. rect = Some cs \<and> 0 \<le> page_index \<and> length cs = 4
          \<and> context_try fitz_open pdf_path page_index cs = (Inl e, evs)
        \<longrightarrow> get_contextual_text_for_field fitz_open pdf_path page_index rect
            = (Inr (''Error during contextual text extraction: '' @ exn_msg e), evs)"
    by (auto simp: get_contextual_text_for_field_def error_prefix_def)
qed

theorem get_contextual_text_never_raises_witness:
  "get_contextual_text_for_field (\<lambda>p. Inl (PyErr ''FileNotFoundError'' ''no such file''))
       ''form.pdf'' 0 (Some [100, 700, 200, 715])
     = (Inr ''Error during contextual text extraction: no such file'', [])
   \<and> get_contextual_text_for_field (\<lambda>p. Inl (PyErr ''FileNotFoundError'' ''no such file''))
       ''form.pdf'' (- 1) (Some [100, 700, 200, 715])
     = (Inr ''Invalid page index or field coordinates for contextual analysis.'', [])"
  using get_contextual_text_never_raises
          [of "\<lambda>p. Inl (PyErr ''FileNotFoundError'' ''no such file'')" "''form.pdf''" 0
              "Some [100, 700, 200, 715]"]
        get_contextual_text_never_raises
          [of "\<lambda>p. Inl (PyErr ''FileNotFoundError'' ''no such file'')" "''form.pdf''" "- 1"
              "Some [100, 700, 200, 715]"]
  by (simp add: context_try_open_fails)

subsection \<open>Assembly of the context string\<close>

lemma left_items_exact:
  "left_items_with left_qualifies height f_x0 f_lly f_ury words_raw
   = left_items height f_x0 f_lly f_ury words_raw"
  by (simp add: left_items_with_def left_items_def left_texts_candidates_def)

lemma above_items_exact:
  "above_items_with left_qualifies above_qualifies height f_x0 f_lly f_x1 f_ury words_raw
   = above_items height f_x0 f_lly f_x1 f_ury words_raw"
  by (simp add: above_items_with_def above_items_def above_texts_candidates_def
      claimed_after_left_def left_items_exact)

lemma closest_items_exact:
  "closest_items_with left_qualifies above_qualifies distance_sq
     height f_x0 f_lly f_x1 f_ury words_raw
   = closest_items height f_x0 f_lly f_x1 f_ury words_raw"
  by (simp add: closest_items_with_def closest_items_def closest_texts_candidates_def
      claimed_after_above_def claimed_after_left_def left_items_exact above_items_exact)

lemma context_try_exact:
  "context_try_with left_qualifies above_qualifies distance_sq
     fitz_open pdf_path page_index coords
   = context_try fitz_open pdf_path page_index coords"
  unfolding context_try_with_def context_try_def left_items_exact above_items_exact
    closest_items_exact
  by (rule refl)

lemma get_contextual_text_exact:
  "get_contextual_text_for_field_with left_qualifies above_qualifies distance_sq
     fitz_open pdf_path page_index field_rect_coords
   = get_contextual_text_for_field fitz_open pdf_path page_index field_rect_coords"
  unfolding get_contextual_text_for_field_with_def get_contextual_text_for_field_def
    context_try_exact
  by (rule refl)

lemma context_try_with_ok:
  assumes "fitz_open pdf_path = Inr doc"
    and "page_index < int (length (pages doc))"
    and "get_text_words (pages doc ! nat page_index) = Inr words_raw"
  shows "context_try_with left_test above_test dist_sq fitz_open pdf_path page_index
           [f_x0, f_lly, f_x1, f_ury]
         = (Inr (assemble
                   (map c_text (closest_items_with left_test above_test dist_sq
                                  (rect_height (pages doc ! nat page_index))
                                  f_x0 f_lly f_x1 f_ury words_raw))
                   (map c_text (left_items_with left_test
                                  (rect_height (pages doc ! nat page_index))
                                  f_x0 f_lly f_ury words_raw))
                   (map c_text (above_items_with left_test above_test
                                  (rect_height (pages doc ! nat page_index))
                                  f_x0 f_lly f_x1 f_ury words_raw))),
            [FitzOpen, FitzClose])"
  using assms by (simp add: context_try_with_def Let_def)

lemma get_contextual_text_with_ok:
  assumes "fitz_open pdf_path = Inr doc"
    and "0 \<le> page_index"
    and "page_index < int (length (pages doc))"
    and "get_text_words (pages doc ! nat page_index) = Inr words_raw"
  shows "get_contextual_text_for_field_with left_test above_test dist_sq
           fitz_open pdf_path page_index (Some [f_x0, f_lly, f_x1, f_ury])
         = (Inr (assemble
                   (map c_text (closest_items_with left_test above_test dist_sq
                                  (rect_height (pages doc ! nat page_index))
                                  f_x0 f_lly f_x1 f_ury words_raw))
                   (map c_text (left_items_with left_test
                                  (rect_height (pages doc ! nat page_index))
                                  f_x0 f_lly f_ury words_raw))
                   (map c_text (above_items_with left_test above_test
                                  (rect_height (pages doc ! nat page_index))
                                  f_x0 f_lly f_x1 f_ury words_raw))),
            [FitzOpen, FitzClose])"
  using assms by (simp add: get_contextual_text_for_field_with_def context_try_with_ok)

lemma assemble_cases:
  "assemble cl le ab =
     (if cl = [] \<and> le = [] \<and> ab = []
      then ''No distinct contextual text found nearby (or heuristics need tuning).''
      else join '' | ''
             ((if cl = [] then [] else [''Closest: '' @ join '' '' cl])
              @ (if le = [] then [] else [''Left: '' @ join '' '' le])
              @ (if ab = [] then [] else [''Above: '' @ join '' '' ab])))"
  by (simp add: assemble_def contextual_texts_output_def segment_def no_context_msg_def)

lemma no_left_items_with:
  "\<forall>w \<in> set words_raw. \<not> left_test height f_x0 f_lly f_ury w
   \<Longrightarrow> left_items_with left_test height f_x0 f_lly f_ury words_raw = []"
  by (simp add: left_items_with_def filter_False)

lemma no_above_items_with:
  "\<forall>w \<in> set words_raw. \<not> above_test height f_x0 f_x1 f_ury w
   \<Longrightarrow> above_items_with left_test above_test height f_x0 f_lly f_x1 f_ury words_raw = []"
  by (simp add: above_items_with_def filter_False)

lemma no_closest_items_with:
  "\<forall>w \<in> set words_raw.
      \<not> dist_sq height f_x0 f_lly f_x1 f_ury w < MAX_RELEVANT_DISTANCE_SQ_OVERALL
   \<Longrightarrow> closest_items_with left_test above_test dist_sq
         height f_x0 f_lly f_x1 f_ury words_raw = []"
  by (simp add: closest_items_with_def filter_False)

text \<open>
  C4. Whatever the three float tests compute (their outcomes are the parameters
  left_test, above_test and dist_sq): for a document that opens, a page index inside it,
  a page whose words can be read and a rectangle of four coordinates, the returned string
  is made of the segments "Closest: ...", "Left: ...", "Above: ...", each present exactly
  when its pass kept at least one word, joined with " | " in this order; when all three
  are empty it is the no-context sentinel. In particular, when no word of the page passes
  the test of any pass, that is, no word is inside any search window as the code computes
  it, the result is that sentinel.
\<close>

theorem context_string_assembly:
  assumes "fitz_open pdf_path = Inr doc"
    and "0 \<le> page_index"
    and "page_index < int (length (pages doc))"
    and "get_text_words (pages doc ! nat page_index) = Inr words_raw"
    and "height = rect_height (pages doc ! nat page_index)"
    and "closest_texts = map c_text (closest_items_with left_test above_test dist_sq
                                       height f_x0 f_lly f_x1 f_ury words_raw)"
    and "left_texts = map c_text (left_items_with left_test
                                    height f_x0 f_lly f_ury words_raw)"
    and "above_texts = map c_text (above_items_with left_test above_test
                                     height f_x0 f_lly f_x1 f_ury words_raw)"
  shows "fst (get_contextual_text_for_field_with left_test above_test dist_sq
                fitz_open pdf_path page_index (Some [f_x0, f_lly, f_x1, f_ury]))
         = Inr (if closest_texts = [] \<and> left_texts = [] \<and> above_texts = []
                then ''No distinct contextual text found nearby (or heuristics need tuning).''
                else join '' | ''
                       ((if closest_texts = [] then []
                         else [''Closest: '' @ join '' '' closest_texts])
                        @ (if left_texts = [] then []
                           else [''Left: '' @ join '' '' left_texts])
                        @ (if above_texts = [] then []
                           else [''Above: '' @ join '' '' above_texts])))
         \<and> ((\<forall>w \<in> set words_raw.
                 \<not> left_test height f_x0 f_lly f_ury w
               \<and> \<not> above_test height f_x0 f_x1 f_ury w
               \<and> \<not> dist_sq height f_x0 f_lly f_x1 f_ury w < 150 * 150)
             \<longrightarrow> fst (get_contextual_text_for_field_with left_test above_test dist_sq
                         fitz_open pdf_path page_index (Some [f_x0, f_lly, f_x1, f_ury]))
                 = Inr ''No distinct contextual text found nearby (or heuristics need tuning).'')"
proof -
  have res: "fst (get_contextual_text_for_field_with left_test above_test dist_sq
                    fitz_open pdf_path page_index (Some [f_x0, f_lly, f_x1, f_ury]))
             = Inr (assemble closest_texts left_texts above_texts)"
    using assms by (simp add: get_contextual_text_with_ok)
  have empty: "closest_texts = [] \<and> left_texts = [] \<and> above_texts = []"
    if "\<forall>w \<in> set words_raw.
          \<not> left_test height f_x0 f_lly f_ury w
        \<and> \<not> above_test height f_x0 f_x1 f_ury w
        \<and> \<not> dist_sq height f_x0 f_lly f_x1 f_ury w < 150 * 150"
    using that assms(6-8)
    by (simp add: no_left_items_with no_above_items_with no_closest_items_with
          MAX_RELEVANT_DISTANCE_SQ_OVERALL_def)
  show ?thesis
    unfolding res using empty by (simp add: assemble_cases)
qed

lemma sample_left_items:
  "left_items 792 100 700 715 sample_words
   = [\<lparr>c_text = ''Name:'', c_id = (0, 0, 0), c_x1 = 65, c_y0 = 75\<rparr>]"
  by (simp add: sample_words_def left_items_def left_texts_candidates_def left_qualifies_def
      is_vertically_aligned_def SEARCH_MARGIN_X_LEFT_def VERTICAL_ALIGNMENT_TOLERANCE_def
      word_id_def)

lemma sample_above_items:
  "above_items 792 100 700 200 715 sample_words
   = [\<lparr>c_text = ''Full'', c_id = (0, 1, 0), c_y1 = 70, c_x0 = 100\<rparr>]"
  by (simp add: above_items_def claimed_after_left_def sample_left_items)
     (simp add: sample_words_def above_texts_candidates_def above_qualifies_def
      SEARCH_MARGIN_Y_ABOVE_def HORIZONTAL_ALIGNMENT_TOLERANCE_def word_id_def)

lemma sample_closest_items:
  "closest_items 792 100 700 200 715 sample_words
   = [\<lparr>c_text = ''here'', c_id = (0, 0, 1), c_distance = 22581 / 4\<rparr>]"
  by (simp add: closest_items_def claimed_after_above_def claimed_after_left_def
      sample_left_items sample_above_items)
     (simp add: sample_words_def closest_texts_candidates_def distance_sq_def
      MAX_RELEVANT_DISTANCE_SQ_OVERALL_def word_id_def)

lemma far_words_outside:
  "\<forall>w \<in> set far_words.
      \<not> left_qualifies 792 100 700 715 w
    \<and> \<not> above_qualifies 792 100 200 715 w
    \<and> \<not> distance_sq 792 100 700 200 715 w < 150 * 150"
  by (simp add: far_words_def far_word_def left_qualifies_def above_qualifies_def
      distance_sq_def)

text \<open>
  The sample pages have coordinates that floating point represents and subtracts exactly,
  so there the tests in exact arithmetic are the tests the code computes.
\<close>

theorem context_string_assembly_witness:
  "fst (get_contextual_text_for_field_with left_qualifies above_qualifies distance_sq
          (\<lambda>p. Inr sample_doc) ''form.pdf'' 0 (Some [100, 700, 200, 715]))
     = Inr ''Closest: here | Left: Name: | Above: Full''
   \<and> \<not> left_qualifies 792 100 700 715 far_word
   \<and> \<not> above_qualifies 792 100 200 715 far_word
   \<and> \<not> distance_sq 792 100 700 200 715 far_word < 150 * 150
   \<and> fst (get_contextual_text_for_field_with left_qualifies above_qualifies distance_sq
          (\<lambda>p. Inr far_doc) ''form.pdf'' 0 (Some [100, 700, 200, 715]))
     = Inr ''No distinct contextual text found nearby (or heuristics need tuning).''"
proof -
  have page0: "get_text_words (pages sample_doc ! nat 0) = Inr sample_words"
    and height0: "792 = rect_height (pages sample_doc ! nat 0)"
    and len0: "(0::int) < int (length (pages sample_doc))"
    by (simp_all add: sample_doc_def)
  have c0: "[''here''] = map c_text (closest_items_with left_qualifies above_qualifies
                                      distance_sq 792 100 700 200 715 sample_words)"
    and l0: "[''Name:''] = map c_text (left_items_with left_qualifies
                                       792 100 700 715 sample_words)"
    and a0: "[''Full''] = map c_text (above_items_with left_qualifies above_qualifies
                                      792 100 700 200 715 sample_words)"
    by (simp_all add: closest_items_exact left_items_exact above_items_exact
          sample_left_items sample_above_items sample_closest_items)
  have a: "fst (get_contextual_text_for_field_with left_qualifies above_qualifies distance_sq
                  (\<lambda>p. Inr sample_doc) ''form.pdf'' 0 (Some [100, 700, 200, 715]))
           = Inr ''Closest: here | Left: Name: | Above: Full''"
    using context_string_assembly
            [of "\<lambda>p. Inr sample_doc" "''form.pdf''" sample_doc 0 sample_words 792
                "[''here'']" left_qualifies above_qualifies distance_sq 100 700 200 715
                "[''Name:'']" "[''Full'']",
             OF refl order_refl len0 page0 height0 c0 l0 a0]
    by simp
  have page1: "get_text_words (pages far_doc ! nat 0) = Inr far_words"
    and height1: "792 = rect_height (pages far_doc ! nat 0)"
    and len1: "(0::int) < int (length (pages far_doc))"
    by (simp_all add: far_doc_def)
  have b: "fst (get_contextual_text_for_field_with left_qualifies above_qualifies distance_sq
                  (\<lambda>p. Inr far_doc) ''form.pdf'' 0 (Some [100, 700, 200, 715]))
           = Inr ''No distinct contextual text found nearby (or heuristics need tuning).''"
    using far_words_outside
          context_string_assembly
            [of "\<lambda>p. Inr far_doc" "''form.pdf''" far_doc 0 far_words 792
                "map c_text (closest_items_with left_qualifies above_qualifies distance_sq
                               792 100 700 200 715 far_words)"
                left_qualifies above_qualifies distance_sq 100 700 200 715
                "map c_text (left_items_with left_qualifies 792 100 700 715 far_words)"
                "map c_text (above_items_with left_qualifies above_qualifies
                               792 100 700 200 715 far_words)",
             OF refl order_refl len1 page1 height1 refl refl refl]
    by blast
  show ?thesis using a b far_words_outside by (simp add: far_words_def)
qed

subsection \<open>Page index beyond the document\<close>

text \<open>
  C10. When the document opens, the page index is not negative, the rectangle has four
  coordinates and the page index is at least the number of pages, the function closes the
  document and returns "Page index N out of bounds for PyMuPDF." with N the page index in
  decimal. This string is neither the invalid-input sentinel nor a string with the error
  prefix.
\<close>

theorem page_index_out_of_bounds:
  assumes "fitz_open pdf_path = Inr doc"
    and "0 \<le> page_index"
    and "length coords = 4"
    and "page_index \<ge> int (length (pages doc))"
  shows "get_contextual_text_for_field fitz_open pdf_path page_index (Some coords)
           = (Inr (''Page index '' @ str_int page_index @ '' out of bounds for PyMuPDF.''),
              [FitzOpen, FitzClose])
         \<and> ''Page index '' @ str_int page_index @ '' out of bounds for PyMuPDF.''
             \<noteq> ''Invalid page index or field coordinates for contextual analysis.''
         \<and> \<not> prefix ''Error during contextual text extraction: ''
               (''Page index '' @ str_int page_index @ '' out of bounds for PyMuPDF.'')"
proof -
  from assms(3) have "coords \<noteq> []" by auto
  with assms show ?thesis
    by (simp add: get_contextual_text_for_field_def context_try_def out_of_bounds_msg_def)
qed

theorem page_index_out_of_bounds_witness:
  "get_contextual_text_for_field
     (\<lambda>p. Inr \<lparr>pages = [\<lparr>rect_height = 792, get_text_words = Inr []\<rparr>]\<rparr>)
     ''form.pdf'' 5 (Some [100, 700, 200, 715])
   = (Inr ''Page index 5 out of bounds for PyMuPDF.'', [FitzOpen, FitzClose])"
  using page_index_out_of_bounds
          [of "\<lambda>p. Inr \<lparr>pages = [\<lparr>rect_height = 792, get_text_words = Inr []\<rparr>]\<rparr>"
              "''form.pdf''" "\<lparr>pages = [\<lparr>rect_height = 792, get_text_words = Inr []\<rparr>]\<rparr>"
              5 "[100, 700, 200, 715]"]
  by (simp add: str_int_def str_nat.simps)

section \<open>Properties of the form writer\<close>

subsection \<open>Check boxes\<close>

lemma pikepdf_Name_Yes:
  "pikepdf_Name ''Yes'' = Inl (PyErr ''ValueError'' (''Name objects must begin with '' @ quoted ''/''))"
  by (simp add: pikepdf_Name_def)

lemma pikepdf_Name_Off:
  "pikepdf_Name ''Off'' = Inl (PyErr ''ValueError'' (''Name objects must begin with '' @ quoted ''/''))"
  by (simp add: pikepdf_Name_def)

lemma on_state_keys:
  "on_state field =
     (case find (\<lambda>key. key \<noteq> ''/Off'') (appearance_state_keys field) of
        Some key \<Rightarrow> Inr (PString key)
      | None \<Rightarrow> pikepdf_Name ''Yes'')"
  by (simp add: on_state_def appearance_state_keys_def get_or_def
           split: option.split pdf_obj.split)

lemma on_state_first_key:
  assumes "appearance_state_keys field = ks @ k # ks'"
    and "set ks \<subseteq> {''/Off''}"
    and "k \<noteq> ''/Off''"
  shows "on_state field = Inr (PString k)"
proof -
  have "find (\<lambda>key. key \<noteq> ''/Off'') (ks @ k # ks') = Some k"
    using assms(2,3) by (induction ks) auto
  then show ?thesis using assms(1) by (simp add: on_state_keys)
qed

lemma on_state_fallback:
  assumes "set (appearance_state_keys field) \<subseteq> {''/Off''}"
  shows "on_state field = pikepdf_Name ''Yes''"
proof -
  have "find (\<lambda>key. key \<noteq> ''/Off'') (appearance_state_keys field) = None"
    using assms by (auto simp: find_None_iff)
  then show ?thesis by (simp add: on_state_keys)
qed

lemma map_of_set_item:
  "map_of (set_item field key v) k = (if k = key then Some v else map_of field k)"
  by (simp add: set_item_def update_conv')

text \<open>
  C8, what the code does. For a field of type /Btn whose name is in the mapping:
  the value false leaves the field as it was, because pikepdf.Name("Off") raises and the
  inner except only prints a warning; the value true leaves the field as it was when the
  appearance-state dictionary has no key other than "/Off", because pikepdf.Name("Yes")
  raises; the value true writes the first key other than "/Off" to /V and /AS when there
  is one; a value that is no boolean is written to /V as the string str(value), and /AS
  is left as it was.
\<close>

theorem checkbox_write:
  assumes "py_str repr (get_or field ''/FT'' (PString '''')) = ''/Btn''"
    and "field_mapping (py_str repr (get_or field ''/T'' (PString ''''))) = Some v"
    and "field' = fst (fill_field repr field_mapping field)"
  shows "(v = VBool False \<longrightarrow> field' = field)
       \<and> (v = VBool True \<and> set (appearance_state_keys field) \<subseteq> {''/Off''} \<longrightarrow> field' = field)
       \<and> (\<forall>ks k ks'. v = VBool True \<and> appearance_state_keys field = ks @ k # ks'
              \<and> set ks \<subseteq> {''/Off''} \<and> k \<noteq> ''/Off''
            \<longrightarrow> map_of field' ''/V'' = Some (PString k)
              \<and> map_of field' ''/AS'' = Some (PString k))
       \<and> ((\<forall>b. v \<noteq> VBool b) \<longrightarrow>
            map_of field' ''/V'' = Some (PString (value_str v))
          \<and> map_of field' ''/AS'' = map_of field ''/AS'')"
proof -
  have f: "field' = (case btn_write field v of Inl e \<Rightarrow> field | Inr g \<Rightarrow> g)"
    using assms by (simp add: fill_field_def split: sum.split)
  have fl: "field' = field" if "v = VBool False"
    using that by (simp add: f btn_write_def pikepdf_Name_Off)
  have fb: "field' = field"
    if "v = VBool True" "set (appearance_state_keys field) \<subseteq> {''/Off''}"
    using that by (simp add: f btn_write_def on_state_fallback pikepdf_Name_Yes)
  have key: "map_of field' ''/V'' = Some (PString k) \<and> map_of field' ''/AS'' = Some (PString k)"
    if "v = VBool True" "appearance_state_keys field = ks @ k # ks'"
       "set ks \<subseteq> {''/Off''}" "k \<noteq> ''/Off''"
    for ks k ks'
    using that(1) on_state_first_key [OF that(2,3,4)]
    by (simp add: f btn_write_def map_of_set_item)
  have nb: "map_of field' ''/V'' = Some (PString (value_str v))
          \<and> map_of field' ''/AS'' = map_of field ''/AS''" if "\<forall>b. v \<noteq> VBool b"
    using that by (cases v) (auto simp: f btn_write_def map_of_set_item)
  show ?thesis using fl fb key nb by blast
qed

lemma checkbox_keys: "appearance_state_keys checkbox_field = [''/Off'', ''/On'']"
  by (simp add: appearance_state_keys_def checkbox_field_def)

lemma checkbox_type: "py_str repr (get_or checkbox_field ''/FT'' (PString '''')) = ''/Btn''"
  by (simp add: get_or_def checkbox_field_def)

lemma checkbox_name: "py_str repr (get_or checkbox_field ''/T'' (PString '''')) = ''Agree''"
  by (simp add: get_or_def checkbox_field_def)

theorem checkbox_write_witness:
  "fst (fill_field plain_repr [''Agree'' \<mapsto> VBool False] checkbox_field) = checkbox_field
   \<and> map_of checkbox_field ''/V'' = Some (PName ''/On'')
   \<and> map_of (fst (fill_field plain_repr [''Agree'' \<mapsto> VBool True] checkbox_field)) ''/V''
     = Some (PString ''/On'')
   \<and> map_of (fst (fill_field plain_repr [''Agree'' \<mapsto> VBool True] checkbox_field)) ''/AS''
     = Some (PString ''/On'')
   \<and> map_of (fst (fill_field plain_repr [''Agree'' \<mapsto> VStr ''maybe''] checkbox_field)) ''/V''
     = Some (PString ''maybe'')"
proof -
  have nm: "[''Agree'' \<mapsto> w] (py_str plain_repr (get_or checkbox_field ''/T'' (PString '''')))
            = Some w" for w :: py_value
    by (simp add: checkbox_name)
  have split: "appearance_state_keys checkbox_field = [''/Off''] @ ''/On'' # []"
    by (simp add: checkbox_keys)
  have a: "fst (fill_field plain_repr [''Agree'' \<mapsto> VBool False] checkbox_field) = checkbox_field"
    using checkbox_write
            [of plain_repr checkbox_field "[''Agree'' \<mapsto> VBool False]" "VBool False",
             OF checkbox_type nm refl]
    by simp
  have b: "map_of (fst (fill_field plain_repr [''Agree'' \<mapsto> VBool True] checkbox_field)) ''/V''
             = Some (PString ''/On'')
         \<and> map_of (fst (fill_field plain_repr [''Agree'' \<mapsto> VBool True] checkbox_field)) ''/AS''
             = Some (PString ''/On'')"
  proof -
    have "\<forall>ks k ks'. VBool True = VBool True
              \<and> appearance_state_keys checkbox_field = ks @ k # ks'
              \<and> set ks \<subseteq> {''/Off''} \<and> k \<noteq> ''/Off''
            \<longrightarrow> map_of (fst (fill_field plain_repr [''Agree'' \<mapsto> VBool True] checkbox_field))
                  ''/V'' = Some (PString k)
              \<and> map_of (fst (fill_field plain_repr [''Agree'' \<mapsto> VBool True] checkbox_field))
                  ''/AS'' = Some (PString k)"
      using checkbox_write
              [of plain_repr checkbox_field "[''Agree'' \<mapsto> VBool True]" "VBool True",
               OF checkbox_type nm refl]
      by simp
    from this [rule_format, of "[''/Off'']" "''/On''" "[]"] split show ?thesis by simp
  qed
  have c: "map_of (fst (fill_field plain_repr [''Agree'' \<mapsto> VStr ''maybe''] checkbox_field)) ''/V''
             = Some (PString ''maybe'')"
    using checkbox_write
            [of plain_repr checkbox_field "[''Agree'' \<mapsto> VStr ''maybe'']" "VStr ''maybe''",
             OF checkbox_type nm refl]
    by simp
  have d: "map_of checkbox_field ''/V'' = Some (PName ''/On'')"
    by (simp add: checkbox_field_def)
  show ?thesis using a b c d by simp
qed

lemma checkbox_false_run:
  "fill_field plain_repr [''Agree'' \<mapsto> VBool False] checkbox_field
   = (checkbox_field, 0,
      [''Warning: Could not fill field '' @ quoted ''Agree''
         @ '': Name objects must begin with '' @ quoted ''/''])"
  by (simp add: fill_field_def checkbox_name checkbox_type btn_write_def pikepdf_Name_Off)

subsection \<open>Fields and keys outside the mapping\<close>

lemma fill_field_cong:
  assumes "m (py_str repr (get_or field ''/T'' (PString ''''))) = m' (py_str repr (get_or field ''/T'' (PString '''')))"
  shows "fill_field repr m field = fill_field repr m' field"
  using assms by (simp add: fill_field_def Let_def)

lemma fill_fields_cong:
  assumes "\<And>f. f \<in> set fs \<Longrightarrow>
             m (py_str repr (get_or f ''/T'' (PString ''''))) = m' (py_str repr (get_or f ''/T'' (PString '''')))"
  shows "fill_fields repr m fs = fill_fields repr m' fs"
  using assms
proof (induction fs)
  case Nil
  show ?case by simp
next
  case (Cons f fs)
  have "fill_field repr m f = fill_field repr m' f"
    by (rule fill_field_cong) (simp add: Cons.prems)
  moreover have "fill_fields repr m fs = fill_fields repr m' fs"
    by (rule Cons.IH) (simp add: Cons.prems)
  ultimately show ?case by simp
qed

lemma fill_field_unmapped:
  "m (py_str repr (get_or field ''/T'' (PString ''''))) = None
   \<Longrightarrow> fst (fill_field repr m field) = field"
  by (simp add: fill_field_def Let_def)

lemma fill_fields_map:
  "fst (fill_fields repr m fs) = map (\<lambda>f. fst (fill_field repr m f)) fs"
  by (induction fs) (auto split: prod.split)

lemma fill_try_cases:
  assumes "pike_open input_pdf_path = Inr pdf" and "acro_form pdf = Some form_fields"
  shows "(ok (fill_try os pike_open repr input_pdf_path m output_pdf_path)
          \<and> saved (fill_try os pike_open repr input_pdf_path m output_pdf_path)
              = Some (output_pdf_path,
                      pdf\<lparr>acro_form := Some (fst (fill_fields repr m form_fields))\<rparr>))
         \<or> (\<not> ok (fill_try os pike_open repr input_pdf_path m output_pdf_path)
            \<and> saved (fill_try os pike_open repr input_pdf_path m output_pdf_path) = None)"
  using assms
  by (auto simp: fill_try_def fill_failed_def Let_def split: prod.split option.split)

lemma fill_pdf_form_cases:
  assumes "pike_open input_pdf_path = Inr pdf" and "acro_form pdf = Some form_fields"
  shows "(ok (fill_pdf_form os pike_open repr input_pdf_path (MDict m) output_pdf_path)
          \<and> saved (fill_pdf_form os pike_open repr input_pdf_path (MDict m) output_pdf_path)
              = Some (output_pdf_path,
                      pdf\<lparr>acro_form := Some (fst (fill_fields repr m form_fields))\<rparr>))
         \<or> (\<not> ok (fill_pdf_form os pike_open repr input_pdf_path (MDict m) output_pdf_path)
            \<and> saved (fill_pdf_form os pike_open repr input_pdf_path (MDict m) output_pdf_path)
                = None)"
proof (cases "path_exists os input_pdf_path")
  case True
  then have "fill_pdf_form os pike_open repr input_pdf_path (MDict m) output_pdf_path
             = fill_try os pike_open repr input_pdf_path m output_pdf_path"
    by (simp add: fill_pdf_form_def fill_checked_def)
  then show ?thesis
    using assms fill_try_cases [of pike_open input_pdf_path pdf form_fields os repr m
                                   output_pdf_path]
    by simp
next
  case False
  then show ?thesis
    by (simp add: fill_pdf_form_def fill_checked_def early_exit_def)
qed

lemma fill_pdf_form_cong:
  assumes "pike_open input_pdf_path = Inr pdf" and "acro_form pdf = Some form_fields"
    and "\<And>f. f \<in> set form_fields \<Longrightarrow>
             m (py_str repr (get_or f ''/T'' (PString ''''))) = m' (py_str repr (get_or f ''/T'' (PString '''')))"
  shows "fill_pdf_form os pike_open repr input_pdf_path (MDict m) output_pdf_path
         = fill_pdf_form os pike_open repr input_pdf_path (MDict m') output_pdf_path"
proof -
  have "fill_fields repr m form_fields = fill_fields repr m' form_fields"
    by (rule fill_fields_cong) (rule assms(3))
  then show ?thesis
    using assms(1,2) by (simp add: fill_pdf_form_def fill_checked_def fill_try_def)
qed

text \<open>
  C9, as the code has it. When the input document opens and has a form: a run that fails
  saves nothing; a run that succeeds saves the document with as many fields as before,
  and every field whose name is not a key of the mapping is in it unchanged. A mapping
  key that is the name of no field has no effect at all: adding, changing or removing it
  changes neither the saved fields, nor the printed lines, nor the result. So such a key
  is ignored silently; no line is printed about it.
\<close>

theorem unmapped_fields_untouched:
  assumes "pike_open input_pdf_path = Inr pdf"
    and "acro_form pdf = Some form_fields"
  shows "(\<not> ok (fill_pdf_form os pike_open repr input_pdf_path (MDict m) output_pdf_path)
            \<longrightarrow> saved (fill_pdf_form os pike_open repr input_pdf_path (MDict m) output_pdf_path)
                 = None)
       \<and> (ok (fill_pdf_form os pike_open repr input_pdf_path (MDict m) output_pdf_path)
            \<longrightarrow> (\<exists>fields'.
                   saved (fill_pdf_form os pike_open repr input_pdf_path (MDict m)
                            output_pdf_path)
                     = Some (output_pdf_path, pdf\<lparr>acro_form := Some fields'\<rparr>)
                 \<and> length fields' = length form_fields
                 \<and> (\<forall>i < length form_fields.
                       m (py_str repr (get_or (form_fields ! i) ''/T'' (PString ''''))) = None
                       \<longrightarrow> fields' ! i = form_fields ! i)))
       \<and> (\<forall>k v. k \<notin> set (map (\<lambda>f. py_str repr (get_or f ''/T'' (PString ''''))) form_fields)
            \<longrightarrow> fill_pdf_form os pike_open repr input_pdf_path (MDict (m(k := v)))
                   output_pdf_path
                 = fill_pdf_form os pike_open repr input_pdf_path (MDict m) output_pdf_path)"
proof (intro conjI)
  let ?r = "fill_pdf_form os pike_open repr input_pdf_path (MDict m) output_pdf_path"
  have cases: "(ok ?r \<and> saved ?r = Some (output_pdf_path,
                      pdf\<lparr>acro_form := Some (fst (fill_fields repr m form_fields))\<rparr>))
         \<or> (\<not> ok ?r \<and> saved ?r = None)"
    using assms by (rule fill_pdf_form_cases)
  show "\<not> ok ?r \<longrightarrow> saved ?r = None"
    using cases by blast
  show "ok ?r \<longrightarrow> (\<exists>fields'.
            saved ?r = Some (output_pdf_path, pdf\<lparr>acro_form := Some fields'\<rparr>)
          \<and> length fields' = length form_fields
          \<and> (\<forall>i < length form_fields.
                m (py_str repr (get_or (form_fields ! i) ''/T'' (PString ''''))) = None
                \<longrightarrow> fields' ! i = form_fields ! i))"
  proof
    assume "ok ?r"
    with cases have s: "saved ?r = Some (output_pdf_path,
                      pdf\<lparr>acro_form := Some (fst (fill_fields repr m form_fields))\<rparr>)"
      by blast
    show "\<exists>fields'.
            saved ?r = Some (output_pdf_path, pdf\<lparr>acro_form := Some fields'\<rparr>)
          \<and> length fields' = length form_fields
          \<and> (\<forall>i < length form_fields.
                m (py_str repr (get_or (form_fields ! i) ''/T'' (PString ''''))) = None
                \<longrightarrow> fields' ! i = form_fields ! i)"
      using s by (intro exI [of _ "fst (fill_fields repr m form_fields)"])
                 (simp add: fill_fields_map fill_field_unmapped)
  qed
  show "\<forall>k v. k \<notin> set (map (\<lambda>f. py_str repr (get_or f ''/T'' (PString ''''))) form_fields)
            \<longrightarrow> fill_pdf_form os pike_open repr input_pdf_path (MDict (m(k := v)))
                   output_pdf_path = ?r"
  proof (intro allI impI)
    fix k v
    assume k: "k \<notin> set (map (\<lambda>f. py_str repr (get_or f ''/T'' (PString ''''))) form_fields)"
    show "fill_pdf_form os pike_open repr input_pdf_path (MDict (m(k := v))) output_pdf_path
          = ?r"
      using assms by (rule fill_pdf_form_cong) (use k in auto)
  qed
qed

lemma form_names:
  "py_str repr (get_or text_field ''/T'' (PString '''')) = ''Name''"
  "py_str repr (get_or checkbox_field ''/T'' (PString '''')) = ''Agree''"
  by (simp_all add: get_or_def text_field_def checkbox_field_def)

lemma ghost_fill_fields:
  "fill_fields plain_repr ghost_mapping [text_field, checkbox_field]
   = ([text_field, checkbox_field], 0, 2,
      [''Info: No mapping found for field '' @ quoted ''Name'',
       ''Info: No mapping found for field '' @ quoted ''Agree''])"
  by (simp add: fill_field_def form_names ghost_mapping_def)

lemma str_int_small: "str_int 0 = ''0''" "str_int 1 = ''1''" "str_int 2 = ''2''"
  by (simp_all add: str_int_def str_nat.simps)

lemma ghost_printed:
  "printed (fill_pdf_form quiet_os (\<lambda>p. Inr form_pdf) plain_repr ''in.pdf''
              (MDict ghost_mapping) ''out.pdf'')
   = [''Info: No mapping found for field '' @ quoted ''Name'',
      ''Info: No mapping found for field '' @ quoted ''Agree'',
      ''Success: Filled 0 out of 2 fields.'',
      ''Filled PDF saved to: out.pdf'']"
  by (simp add: fill_pdf_form_def fill_checked_def fill_try_def quiet_os_def form_pdf_def
      ghost_fill_fields str_int_small del: fill_fields.simps)

text \<open>
  The mapping key "Ghost" names no field of the form; the run succeeds and none of the
  lines it prints mentions that key: there is no warning.
\<close>

theorem ghost_key_no_warning:
  "ghost_mapping ''Ghost'' = Some (VStr ''x'')
   \<and> ''Ghost'' \<notin> set (map (\<lambda>f. py_str plain_repr (get_or f ''/T'' (PString '''')))
                         [text_field, checkbox_field])
   \<and> ok (fill_pdf_form quiet_os (\<lambda>p. Inr form_pdf) plain_repr ''in.pdf''
           (MDict ghost_mapping) ''out.pdf'')
   \<and> printed (fill_pdf_form quiet_os (\<lambda>p. Inr form_pdf) plain_repr ''in.pdf''
                (MDict ghost_mapping) ''out.pdf'')
       = [''Info: No mapping found for field '' @ quoted ''Name'',
          ''Info: No mapping found for field '' @ quoted ''Agree'',
          ''Success: Filled 0 out of 2 fields.'',
          ''Filled PDF saved to: out.pdf'']
   \<and> \<not> list_ex (sublist ''Ghost'')
         (printed (fill_pdf_form quiet_os (\<lambda>p. Inr form_pdf) plain_repr ''in.pdf''
                     (MDict ghost_mapping) ''out.pdf''))"
proof (intro conjI)
  show "ghost_mapping ''Ghost'' = Some (VStr ''x'')" by (simp add: ghost_mapping_def)
  show "''Ghost'' \<notin> set (map (\<lambda>f. py_str plain_repr (get_or f ''/T'' (PString '''')))
                         [text_field, checkbox_field])"
    by (simp add: form_names)
  show "ok (fill_pdf_form quiet_os (\<lambda>p. Inr form_pdf) plain_repr ''in.pdf''
           (MDict ghost_mapping) ''out.pdf'')"
    by (simp add: fill_pdf_form_def fill_checked_def fill_try_def quiet_os_def form_pdf_def
      ghost_fill_fields del: fill_fields.simps)
  show "printed (fill_pdf_form quiet_os (\<lambda>p. Inr form_pdf) plain_repr ''in.pdf''
                (MDict ghost_mapping) ''out.pdf'')
       = [''Info: No mapping found for field '' @ quoted ''Name'',
          ''Info: No mapping found for field '' @ quoted ''Agree'',
          ''Success: Filled 0 out of 2 fields.'',
          ''Filled PDF saved to: out.pdf'']"
    by (rule ghost_printed)
  show "\<not> list_ex (sublist ''Ghost'')
         (printed (fill_pdf_form quiet_os (\<lambda>p. Inr form_pdf) plain_repr ''in.pdf''
                     (MDict ghost_mapping) ''out.pdf''))"
    unfolding ghost_printed by (simp add: quoted_def sublist_code prefix_code)
qed

lemma alice_ok:
  "ok (fill_pdf_form quiet_os (\<lambda>p. Inr form_pdf) plain_repr ''in.pdf''
         (MDict alice_mapping) ''out.pdf'')"
  by (simp add: fill_pdf_form_def fill_checked_def fill_try_def quiet_os_def form_pdf_def
      split: prod.split)

theorem unmapped_fields_untouched_witness:
  "ok (fill_pdf_form quiet_os (\<lambda>p. Inr form_pdf) plain_repr ''in.pdf''
         (MDict alice_mapping) ''out.pdf'')
   \<and> (\<exists>fields'.
         saved (fill_pdf_form quiet_os (\<lambda>p. Inr form_pdf) plain_repr ''in.pdf''
                  (MDict alice_mapping) ''out.pdf'')
           = Some (''out.pdf'', form_pdf\<lparr>acro_form := Some fields'\<rparr>)
       \<and> length fields' = 2
       \<and> fields' ! 1 = checkbox_field)
   \<and> fill_pdf_form quiet_os (\<lambda>p. Inr form_pdf) plain_repr ''in.pdf''
         (MDict (alice_mapping(''Ghost'' := None))) ''out.pdf''
       = fill_pdf_form quiet_os (\<lambda>p. Inr form_pdf) plain_repr ''in.pdf''
           (MDict alice_mapping) ''out.pdf''"
proof -
  have af: "acro_form form_pdf = Some [text_field, checkbox_field]"
    by (simp add: form_pdf_def)
  note th = unmapped_fields_untouched
              [of "\<lambda>p. Inr form_pdf" "''in.pdf''" form_pdf "[text_field, checkbox_field]"
                  quiet_os plain_repr alice_mapping "''out.pdf''", OF refl af]
  have none: "alice_mapping (py_str plain_repr
                 (get_or ([text_field, checkbox_field] ! 1) ''/T'' (PString ''''))) = None"
    by (simp add: form_names alice_mapping_def)
  have ghost: "''Ghost'' \<notin> set (map (\<lambda>f. py_str plain_repr (get_or f ''/T'' (PString '''')))
                                [text_field, checkbox_field])"
    by (simp add: form_names)
  from th alice_ok obtain fields' where f:
      "saved (fill_pdf_form quiet_os (\<lambda>p. Inr form_pdf) plain_repr ''in.pdf''
                  (MDict alice_mapping) ''out.pdf'')
           = Some (''out.pdf'', form_pdf\<lparr>acro_form := Some fields'\<rparr>)"
      "length fields' = length [text_field, checkbox_field]"
      "\<forall>i < length [text_field, checkbox_field].
          alice_mapping (py_str plain_repr
             (get_or ([text_field, checkbox_field] ! i) ''/T'' (PString ''''))) = None
          \<longrightarrow> fields' ! i = [text_field, checkbox_field] ! i"
    by blast
  have one: "fields' ! 1 = checkbox_field"
    using f(3) [rule_format, of 1] none by simp
  have eq: "fill_pdf_form quiet_os (\<lambda>p. Inr form_pdf) plain_repr ''in.pdf''
         (MDict (alice_mapping(''Ghost'' := None))) ''out.pdf''
       = fill_pdf_form quiet_os (\<lambda>p. Inr form_pdf) plain_repr ''in.pdf''
           (MDict alice_mapping) ''out.pdf''"
    using th ghost by blast
  show ?thesis using alice_ok f(1,2) one eq by auto
qed

section \<open>Properties of the catalog builder\<close>

lemma context_always_string:
  "\<exists>s evs. get_contextual_text_for_field fitz_open pdf_path page_index rect = (Inr s, evs)"
  by (auto simp: get_contextual_text_for_field_def split: option.split sum.split prod.split)

lemma extract_field_ok:
  assumes "rect_of err_text field = Inr rect"
    and "py_int err_text (get_or field ''/Page'' (PInteger 0)) = Inr p"
  shows "\<exists>r evs. extract_field fitz_open repr err_text pdf_path field = (Inr r, evs)
           \<and> r_name r = py_str repr (get_or field ''/T'' (PString ''''))
           \<and> r_type r = py_str repr (get_or field ''/FT'' (PString ''''))
           \<and> r_rect r = rect
           \<and> r_page r = py_str repr (get_or field ''/Page'' (PInteger 0))
           \<and> r_opts r = get_field_options repr field
           \<and> Inr (r_text r) = fst (get_contextual_text_for_field fitz_open pdf_path p (Some rect))"
proof -
  obtain s evs where c:
    "get_contextual_text_for_field fitz_open pdf_path p (Some rect) = (Inr s, evs)"
    using context_always_string by blast
  show ?thesis
    using assms c by (simp add: extract_field_def Let_def)
qed

lemma extract_field_rect_fails:
  "rect_of err_text field = Inl e
   \<Longrightarrow> extract_field fitz_open repr err_text pdf_path field = (Inl e, [])"
  by (simp add: extract_field_def Let_def)

lemma extract_field_page_fails:
  "rect_of err_text field = Inr rect
   \<Longrightarrow> py_int err_text (get_or field ''/Page'' (PInteger 0)) = Inl e
   \<Longrightarrow> extract_field fitz_open repr err_text pdf_path field = (Inl e, [])"
  by (simp add: extract_field_def Let_def)

lemma extract_loop_ok:
  assumes "\<forall>f \<in> set fs. (\<exists>rect. rect_of err_text f = Inr rect)
                       \<and> (\<exists>p. py_int err_text (get_or f ''/Page'' (PInteger 0)) = Inr p)"
  shows "\<exists>recs evs. extract_loop fitz_open repr err_text pdf_path fs = (Inr recs, evs)
           \<and> list_all2 (\<lambda>f r. fst (extract_field fitz_open repr err_text pdf_path f) = Inr r)
                 fs recs"
  using assms
proof (induction fs)
  case Nil
  show ?case by simp
next
  case (Cons f fs)
  from Cons.prems obtain rect p where
    "rect_of err_text f = Inr rect"
    "py_int err_text (get_or f ''/Page'' (PInteger 0)) = Inr p"
    by auto
  then obtain r evs where
    r: "extract_field fitz_open repr err_text pdf_path f = (Inr r, evs)"
    using extract_field_ok by blast
  from Cons obtain recs evs' where
    rs: "extract_loop fitz_open repr err_text pdf_path fs = (Inr recs, evs')"
        "list_all2 (\<lambda>f r. fst (extract_field fitz_open repr err_text pdf_path f) = Inr r)
           fs recs"
    by auto
  show ?case using r rs by simp
qed

lemma extract_loop_fails:
  assumes "\<exists>f \<in> set fs. (\<exists>e. rect_of err_text f = Inl e)
                       \<or> (\<exists>e. py_int err_text (get_or f ''/Page'' (PInteger 0)) = Inl e)"
  shows "\<exists>e f evs. extract_loop fitz_open repr err_text pdf_path fs = (Inl e, evs)
           \<and> f \<in> set fs
           \<and> (rect_of err_text f = Inl e
              \<or> py_int err_text (get_or f ''/Page'' (PInteger 0)) = Inl e)"
  using assms
proof (induction fs)
  case Nil
  then show ?case by simp
next
  case (Cons f fs)
  show ?case
  proof (cases "rect_of err_text f")
    case (Inl e)
    then have "extract_loop fitz_open repr err_text pdf_path (f # fs) = (Inl e, [])"
      by (simp add: extract_field_rect_fails)
    with Inl show ?thesis by auto
  next
    case (Inr rect)
    show ?thesis
    proof (cases "py_int err_text (get_or f ''/Page'' (PInteger 0))")
      case (Inl e)
      with Inr have "extract_loop fitz_open repr err_text pdf_path (f # fs) = (Inl e, [])"
        by (simp add: extract_field_page_fails)
      with Inl show ?thesis by auto
    next
      case page: (Inr p)
      obtain r evs where
        r: "extract_field fitz_open repr err_text pdf_path f = (Inr r, evs)"
        using extract_field_ok [OF Inr page] by blast
      from Cons.prems Inr page have
        "\<exists>g \<in> set fs. (\<exists>e. rect_of err_text g = Inl e)
            \<or> (\<exists>e. py_int err_text (get_or g ''/Page'' (PInteger 0)) = Inl e)"
        by auto
      from Cons.IH [OF this] obtain e g evs' where
        g: "extract_loop fitz_open repr err_text pdf_path fs = (Inl e, evs')"
           "g \<in> set fs"
           "rect_of err_text g = Inl e
            \<or> py_int err_text (get_or g ''/Page'' (PInteger 0)) = Inl e"
        by blast
      have "extract_loop fitz_open repr err_text pdf_path (f # fs) = (Inl e, evs @ evs')"
        using r g(1) by simp
      with g(2,3) show ?thesis by auto
    qed
  qed
qed

lemma py_float_error_class: "py_float err_text x = Inl e \<Longrightarrow> exn_type e = ''TypeError''"
  by (cases x) auto

lemma py_int_error_class: "py_int err_text x = Inl e \<Longrightarrow> exn_type e = ''TypeError''"
  by (cases x) auto

lemma float_list_error_class:
  "float_list err_text xs = Inl e \<Longrightarrow> exn_type e = ''TypeError''"
  by (induction xs) (auto split: sum.splits dest: py_float_error_class)

lemma rect_of_error_class:
  "rect_of err_text field = Inl e
   \<Longrightarrow> exn_type e = ''TypeError'' \<or> exn_type e = ''ValueError''"
  by (auto simp: rect_of_def split: option.splits pdf_obj.splits list.splits
           dest: float_list_error_class)

text \<open>
  C5, as the code has it. Let the document open and have a form. When for every field
  float() accepts every entry of /Rect and int() accepts /Page (or the keys are absent),
  extract_form_fields returns one record per field, in the order of the fields, with the
  field's name, type, rectangle, page and options, and with the text that
  get_contextual_text_for_field gives for its page and rectangle; a rectangle that has
  not four coordinates, or a negative page, gives the invalid-input sentinel as text.
  When for some field float() rejects an entry of /Rect or int() rejects /Page,
  extract_form_fields raises: it returns no catalog, the exception is the one of such a
  rejected coercion, a TypeError or a ValueError.
\<close>

theorem catalog_or_exception:
  assumes "pike_open pdf_path = Inr pdf"
    and "acro_form pdf = Some form_fields"
  shows "((\<forall>f \<in> set form_fields.
             (\<exists>rect. rect_of err_text f = Inr rect)
           \<and> (\<exists>p. py_int err_text (get_or f ''/Page'' (PInteger 0)) = Inr p))
          \<longrightarrow> (\<exists>recs. fst (extract_form_fields pike_open fitz_open repr err_text pdf_path)
                         = Inr recs
                \<and> length recs = length form_fields
                \<and> (\<forall>i rect p. i < length form_fields
                       \<and> rect_of err_text (form_fields ! i) = Inr rect
                       \<and> py_int err_text (get_or (form_fields ! i) ''/Page'' (PInteger 0))
                           = Inr p
                     \<longrightarrow> r_name (recs ! i)
                           = py_str repr (get_or (form_fields ! i) ''/T'' (PString ''''))
                       \<and> r_type (recs ! i)
                           = py_str repr (get_or (form_fields ! i) ''/FT'' (PString ''''))
                       \<and> r_rect (recs ! i) = rect
                       \<and> r_page (recs ! i)
                           = py_str repr (get_or (form_fields ! i) ''/Page'' (PInteger 0))
                       \<and> r_opts (recs ! i) = get_field_options repr (form_fields ! i)
                       \<and> Inr (r_text (recs ! i))
                           = fst (get_contextual_text_for_field fitz_open pdf_path p
                                    (Some rect))
                       \<and> (length rect \<noteq> 4 \<or> p < 0
                           \<longrightarrow> r_text (recs ! i)
                               = ''Invalid page index or field coordinates for contextual analysis.''))))
       \<and> ((\<exists>f \<in> set form_fields.
              (\<exists>e. rect_of err_text f = Inl e)
            \<or> (\<exists>e. py_int err_text (get_or f ''/Page'' (PInteger 0)) = Inl e))
          \<longrightarrow> (\<exists>e f. fst (extract_form_fields pike_open fitz_open repr err_text pdf_path)
                        = Inl e
                \<and> f \<in> set form_fields
                \<and> (rect_of err_text f = Inl e
                   \<or> py_int err_text (get_or f ''/Page'' (PInteger 0)) = Inl e)
                \<and> (exn_type e = ''TypeError'' \<or> exn_type e = ''ValueError'')))"
proof (intro conjI impI)
  assume coercible:
    "\<forall>f \<in> set form_fields.
        (\<exists>rect. rect_of err_text f = Inr rect)
      \<and> (\<exists>p. py_int err_text (get_or f ''/Page'' (PInteger 0)) = Inr p)"
  obtain recs evs where
    l: "extract_loop fitz_open repr err_text pdf_path form_fields = (Inr recs, evs)"
       "list_all2 (\<lambda>f r. fst (extract_field fitz_open repr err_text pdf_path f) = Inr r)
          form_fields recs"
    using extract_loop_ok [OF coercible] by blast
  have res: "fst (extract_form_fields pike_open fitz_open repr err_text pdf_path) = Inr recs"
    using assms l(1) by (simp add: extract_form_fields_def)
  have len: "length recs = length form_fields"
    using l(2) by (simp add: list_all2_lengthD)
  have each: "r_name (recs ! i) = py_str repr (get_or (form_fields ! i) ''/T'' (PString ''''))
            \<and> r_type (recs ! i) = py_str repr (get_or (form_fields ! i) ''/FT'' (PString ''''))
            \<and> r_rect (recs ! i) = rect
            \<and> r_page (recs ! i) = py_str repr (get_or (form_fields ! i) ''/Page'' (PInteger 0))
            \<and> r_opts (recs ! i) = get_field_options repr (form_fields ! i)
            \<and> Inr (r_text (recs ! i))
                = fst (get_contextual_text_for_field fitz_open pdf_path p (Some rect))
            \<and> (length rect \<noteq> 4 \<or> p < 0
                \<longrightarrow> r_text (recs ! i)
                    = ''Invalid page index or field coordinates for contextual analysis.'')"
    if i: "i < length form_fields"
      and rect: "rect_of err_text (form_fields ! i) = Inr rect"
      and p: "py_int err_text (get_or (form_fields ! i) ''/Page'' (PInteger 0)) = Inr p"
    for i rect p
  proof -
    have fi: "fst (extract_field fitz_open repr err_text pdf_path (form_fields ! i))
              = Inr (recs ! i)"
      using list_all2_nthD [OF l(2) i] by simp
    obtain r evs' where r:
      "extract_field fitz_open repr err_text pdf_path (form_fields ! i) = (Inr r, evs')"
      "r_name r = py_str repr (get_or (form_fields ! i) ''/T'' (PString ''''))"
      "r_type r = py_str repr (get_or (form_fields ! i) ''/FT'' (PString ''''))"
      "r_rect r = rect"
      "r_page r = py_str repr (get_or (form_fields ! i) ''/Page'' (PInteger 0))"
      "r_opts r = get_field_options repr (form_fields ! i)"
      "Inr (r_text r) = fst (get_contextual_text_for_field fitz_open pdf_path p (Some rect))"
      using extract_field_ok [OF rect p] by blast
    from fi r(1) have eq: "recs ! i = r" by simp
    have inv: "r_text r = ''Invalid page index or field coordinates for contextual analysis.''"
      if "length rect \<noteq> 4 \<or> p < 0"
      using that r(7)
      by (auto simp: get_contextual_text_for_field_def invalid_msg_def)
    show ?thesis using r(2-7) inv unfolding eq by blast
  qed
  show "\<exists>recs. fst (extract_form_fields pike_open fitz_open repr err_text pdf_path) = Inr recs
          \<and> length recs = length form_fields
          \<and> (\<forall>i rect p. i < length form_fields
                 \<and> rect_of err_text (form_fields ! i) = Inr rect
                 \<and> py_int err_text (get_or (form_fields ! i) ''/Page'' (PInteger 0)) = Inr p
               \<longrightarrow> r_name (recs ! i)
                     = py_str repr (get_or (form_fields ! i) ''/T'' (PString ''''))
                 \<and> r_type (recs ! i)
                     = py_str repr (get_or (form_fields ! i) ''/FT'' (PString ''''))
                 \<and> r_rect (recs ! i) = rect
                 \<and> r_page (recs ! i)
                     = py_str repr (get_or (form_fields ! i) ''/Page'' (PInteger 0))
                 \<and> r_opts (recs ! i) = get_field_options repr (form_fields ! i)
                 \<and> Inr (r_text (recs ! i))
                     = fst (get_contextual_text_for_field fitz_open pdf_path p (Some rect))
                 \<and> (length rect \<noteq> 4 \<or> p < 0
                     \<longrightarrow> r_text (recs ! i)
                         = ''Invalid page index or field coordinates for contextual analysis.''))"
    using res len each by blast
next
  assume rejected:
    "\<exists>f \<in> set form_fields.
        (\<exists>e. rect_of err_text f = Inl e)
      \<or> (\<exists>e. py_int err_text (get_or f ''/Page'' (PInteger 0)) = Inl e)"
  from extract_loop_fails [OF rejected] obtain e f evs where
    l: "extract_loop fitz_open repr err_text pdf_path form_fields = (Inl e, evs)"
       "f \<in> set form_fields"
       "rect_of err_text f = Inl e
        \<or> py_int err_text (get_or f ''/Page'' (PInteger 0)) = Inl e"
    by blast
  have res: "fst (extract_form_fields pike_open fitz_open repr err_text pdf_path) = Inl e"
    using assms l(1) by (simp add: extract_form_fields_def)
  have cls: "exn_type e = ''TypeError'' \<or> exn_type e = ''ValueError''"
    using l(3) rect_of_error_class py_int_error_class by blast
  show "\<exists>e f. fst (extract_form_fields pike_open fitz_open repr err_text pdf_path) = Inl e
          \<and> f \<in> set form_fields
          \<and> (rect_of err_text f = Inl e
             \<or> py_int err_text (get_or f ''/Page'' (PInteger 0)) = Inl e)
          \<and> (exn_type e = ''TypeError'' \<or> exn_type e = ''ValueError'')"
    using res l(2,3) cls by blast
qed

lemma rect_of_samples:
  "rect_of err_text name_field = Inr [100, 700, 200, 715]"
  "rect_of err_text short_rect_field = Inr [100, 700, 200]"
  "rect_of err_text bad_page_field = Inr [100, 700, 200, 715]"
  "rect_of err_text bad_rect_field = Inl (PyErr ''TypeError'' (err_text (PName ''/x'')))"
  by (simp_all add: rect_of_def name_field_def short_rect_field_def bad_page_field_def
      bad_rect_field_def)

lemma page_of_samples:
  "py_int err_text (get_or name_field ''/Page'' (PInteger 0)) = Inr 0"
  "py_int err_text (get_or short_rect_field ''/Page'' (PInteger 0)) = Inr 0"
  "py_int err_text (get_or bad_page_field ''/Page'' (PInteger 0))
     = Inl (PyErr ''TypeError'' (err_text (PName ''/first'')))"
  by (simp_all add: get_or_def name_field_def short_rect_field_def bad_page_field_def)

lemma name_field_record:
  "\<exists>r evs. extract_field (\<lambda>p. Inr sample_doc) plain_repr plain_err ''form.pdf'' name_field
             = (Inr r, evs)"
  using extract_field_ok [OF rect_of_samples(1) page_of_samples(1)] by blast

text \<open>
  A /Rect entry that is a name makes float() raise in the comprehension, and a /Page that
  is a name makes int() raise, both outside any try: the function raises TypeError and
  returns no record, not even for the field before.
\<close>

theorem malformed_entries_raise:
  "raised_class (fst (extract_form_fields (\<lambda>p. Inr broken_form_pdf) (\<lambda>p. Inr sample_doc)
                        plain_repr plain_err ''form.pdf''))
     = Some ''TypeError''
   \<and> raised_class (fst (extract_form_fields (\<lambda>p. Inr bad_page_form_pdf) (\<lambda>p. Inr sample_doc)
                          plain_repr plain_err ''form.pdf''))
     = Some ''TypeError''"
proof -
  obtain r evs where
    r: "extract_field (\<lambda>p. Inr sample_doc) plain_repr plain_err ''form.pdf'' name_field
        = (Inr r, evs)"
    using name_field_record by blast
  have b: "extract_field (\<lambda>p. Inr sample_doc) plain_repr plain_err ''form.pdf'' bad_rect_field
           = (Inl (PyErr ''TypeError'' (plain_err (PName ''/x''))), [])"
    by (rule extract_field_rect_fails) (rule rect_of_samples)
  have c: "extract_field (\<lambda>p. Inr sample_doc) plain_repr plain_err ''form.pdf'' bad_page_field
           = (Inl (PyErr ''TypeError'' (plain_err (PName ''/first''))), [])"
    by (rule extract_field_page_fails) (rule rect_of_samples, rule page_of_samples)
  show ?thesis
    by (simp add: extract_form_fields_def broken_form_pdf_def bad_page_form_pdf_def
        raised_class_def r b c)
qed

theorem catalog_or_exception_witness:
  "(\<exists>recs. fst (extract_form_fields (\<lambda>p. Inr short_form_pdf) (\<lambda>p. Inr sample_doc) plain_repr
                   plain_err ''form.pdf'') = Inr recs
      \<and> length recs = 2
      \<and> r_name (recs ! 0) = ''Name''
      \<and> r_rect (recs ! 0) = [100, 700, 200, 715]
      \<and> r_name (recs ! 1) = ''City''
      \<and> r_text (recs ! 1) = ''Invalid page index or field coordinates for contextual analysis.'')
   \<and> (\<exists>e. fst (extract_form_fields (\<lambda>p. Inr bad_page_form_pdf) (\<lambda>p. Inr sample_doc) plain_repr
                  plain_err ''form.pdf'') = Inl e
         \<and> py_int plain_err (get_or bad_page_field ''/Page'' (PInteger 0)) = Inl e)"
proof -
  have af: "acro_form short_form_pdf = Some [name_field, short_rect_field]"
    by (simp add: short_form_pdf_def)
  have ok: "\<forall>f \<in> set [name_field, short_rect_field].
              (\<exists>rect. rect_of plain_err f = Inr rect)
            \<and> (\<exists>p. py_int plain_err (get_or f ''/Page'' (PInteger 0)) = Inr p)"
    by (simp add: rect_of_samples page_of_samples)
  obtain recs where recs:
    "fst (extract_form_fields (\<lambda>p. Inr short_form_pdf) (\<lambda>p. Inr sample_doc) plain_repr
            plain_err ''form.pdf'') = Inr recs"
    "length recs = length [name_field, short_rect_field]"
    "\<forall>i rect p. i < length [name_field, short_rect_field]
        \<and> rect_of plain_err ([name_field, short_rect_field] ! i) = Inr rect
        \<and> py_int plain_err (get_or ([name_field, short_rect_field] ! i) ''/Page'' (PInteger 0))
            = Inr p
      \<longrightarrow> r_name (recs ! i)
            = py_str plain_repr (get_or ([name_field, short_rect_field] ! i) ''/T'' (PString ''''))
        \<and> r_type (recs ! i)
            = py_str plain_repr (get_or ([name_field, short_rect_field] ! i) ''/FT'' (PString ''''))
        \<and> r_rect (recs ! i) = rect
        \<and> r_page (recs ! i)
            = py_str plain_repr (get_or ([name_field, short_rect_field] ! i) ''/Page'' (PInteger 0))
        \<and> r_opts (recs ! i) = get_field_options plain_repr ([name_field, short_rect_field] ! i)
        \<and> Inr (r_text (recs ! i))
            = fst (get_contextual_text_for_field (\<lambda>p. Inr sample_doc) ''form.pdf'' p (Some rect))
        \<and> (length rect \<noteq> 4 \<or> p < 0
            \<longrightarrow> r_text (recs ! i)
                = ''Invalid page index or field coordinates for contextual analysis.'')"
    using catalog_or_exception
            [of "\<lambda>p. Inr short_form_pdf" "''form.pdf''" short_form_pdf
                "[name_field, short_rect_field]" plain_err "\<lambda>p. Inr sample_doc" plain_repr,
             OF refl af]
          ok
    by blast
  have zero: "r_name (recs ! 0) = ''Name'' \<and> r_rect (recs ! 0) = [100, 700, 200, 715]"
    using recs(3) [rule_format, of 0 "[100, 700, 200, 715]" 0]
    by (simp add: rect_of_samples page_of_samples) (simp add: name_field_def get_or_def)
  have one: "r_name (recs ! 1) = ''City''
           \<and> r_text (recs ! 1) = ''Invalid page index or field coordinates for contextual analysis.''"
    using recs(3) [rule_format, of 1 "[100, 700, 200]" 0]
    by (simp add: rect_of_samples page_of_samples) (simp add: short_rect_field_def get_or_def)
  have first: "\<exists>recs. fst (extract_form_fields (\<lambda>p. Inr short_form_pdf) (\<lambda>p. Inr sample_doc)
                              plain_repr plain_err ''form.pdf'') = Inr recs
      \<and> length recs = 2
      \<and> r_name (recs ! 0) = ''Name''
      \<and> r_rect (recs ! 0) = [100, 700, 200, 715]
      \<and> r_name (recs ! 1) = ''City''
      \<and> r_text (recs ! 1) = ''Invalid page index or field coordinates for contextual analysis.''"
    using recs(1,2) zero one by simp
  have af2: "acro_form bad_page_form_pdf = Some [name_field, bad_page_field]"
    by (simp add: bad_page_form_pdf_def)
  have rejected: "\<exists>f \<in> set [name_field, bad_page_field].
                    (\<exists>e. rect_of plain_err f = Inl e)
                  \<or> (\<exists>e. py_int plain_err (get_or f ''/Page'' (PInteger 0)) = Inl e)"
    by (simp add: page_of_samples)
  obtain e f where ef:
    "fst (extract_form_fields (\<lambda>p. Inr bad_page_form_pdf) (\<lambda>p. Inr sample_doc) plain_repr
            plain_err ''form.pdf'') = Inl e"
    "f \<in> set [name_field, bad_page_field]"
    "rect_of plain_err f = Inl e
     \<or> py_int plain_err (get_or f ''/Page'' (PInteger 0)) = Inl e"
    using catalog_or_exception
            [of "\<lambda>p. Inr bad_page_form_pdf" "''form.pdf''" bad_page_form_pdf
                "[name_field, bad_page_field]" plain_err "\<lambda>p. Inr sample_doc" plain_repr,
             OF refl af2]
          rejected
    by blast
  have "py_int plain_err (get_or bad_page_field ''/Page'' (PInteger 0)) = Inl e"
    using ef(2,3) by (auto simp: rect_of_samples page_of_samples)
  with ef(1) first show ?thesis by blast
qed

section \<open>Document handles\<close>

text \<open>
  C6. Three calls that return with a handle still open: get_contextual_text_for_field when
  reading the page's words raises after the document was opened (the except branch does
  not close it), extract_form_fields on a document without a form (no exit of this
  function closes the pikepdf handle), and fill_pdf_form when saving raises.
\<close>

theorem handle_left_open:
  "get_contextual_text_for_field (\<lambda>p. Inr unreadable_doc) ''form.pdf'' 0
       (Some [100, 700, 200, 715])
     = (Inr ''Error during contextual text extraction: cannot read page'', [FitzOpen])
   \<and> \<not> handles_closed (snd (get_contextual_text_for_field (\<lambda>p. Inr unreadable_doc)
                                 ''form.pdf'' 0 (Some [100, 700, 200, 715])))
   \<and> extract_form_fields (\<lambda>p. Inr plain_pdf) (\<lambda>p. Inr sample_doc) plain_repr plain_err
         ''form.pdf''
     = (Inr [], [PikeOpen])
   \<and> \<not> handles_closed (snd (extract_form_fields (\<lambda>p. Inr plain_pdf) (\<lambda>p. Inr sample_doc)
                                 plain_repr plain_err ''form.pdf''))
   \<and> events (fill_pdf_form failing_save_os (\<lambda>p. Inr form_pdf) plain_repr ''in.pdf''
               (MDict ghost_mapping) ''out.pdf'') = [PikeOpen]
   \<and> \<not> handles_closed (events (fill_pdf_form failing_save_os (\<lambda>p. Inr form_pdf) plain_repr
                                    ''in.pdf'' (MDict ghost_mapping) ''out.pdf''))"
proof -
  have a: "get_contextual_text_for_field (\<lambda>p. Inr unreadable_doc) ''form.pdf'' 0
          (Some [100, 700, 200, 715])
        = (Inr ''Error during contextual text extraction: cannot read page'', [FitzOpen])"
    by (simp add: get_contextual_text_for_field_def context_try_def unreadable_doc_def
        error_prefix_def)
  have b: "extract_form_fields (\<lambda>p. Inr plain_pdf) (\<lambda>p. Inr sample_doc) plain_repr plain_err
             ''form.pdf''
        = (Inr [], [PikeOpen])"
    by (simp add: extract_form_fields_def plain_pdf_def)
  have c: "events (fill_pdf_form failing_save_os (\<lambda>p. Inr form_pdf) plain_repr ''in.pdf''
                  (MDict ghost_mapping) ''out.pdf'') = [PikeOpen]"
    by (simp add: fill_pdf_form_def fill_checked_def fill_try_def failing_save_os_def
        form_pdf_def ghost_fill_fields fill_failed_def del: fill_fields.simps)
  show ?thesis
    unfolding a b c by (simp add: handles_closed_def)
qed

section \<open>The conversion between the two y axes, applied twice\<close>

lemma dbl_val_powr: "dbl_val (m, e) = of_int m * 2 powr of_int e"
  by (simp add: dbl_val_def powr_real_of_int divide_inverse)

lemma bit_length_bounds: "n \<noteq> 0 \<Longrightarrow> 2 ^ (bit_length n - 1) \<le> n \<and> n < 2 ^ bit_length n"
proof (induction n rule: bit_length.induct)
  case (1 n)
  show ?case
  proof (cases "n div 2 = 0")
    case True
    with "1.prems" have "n = 1" by (cases n) auto
    then show ?thesis by (simp add: bit_length.simps)
  next
    case False
    with "1.IH" "1.prems" have ih:
      "2 ^ (bit_length (n div 2) - 1) \<le> n div 2" "n div 2 < 2 ^ bit_length (n div 2)"
      by auto
    have bl: "bit_length n = Suc (bit_length (n div 2))"
      using "1.prems" by (simp add: bit_length.simps [of n])
    have pos: "bit_length (n div 2) \<noteq> 0"
      using False by (simp add: bit_length.simps [of "n div 2"])
    then obtain j where j: "bit_length (n div 2) = Suc j" by (cases "bit_length (n div 2)") auto
    from ih j have "2 ^ j \<le> n div 2" "n div 2 < 2 ^ Suc j" by auto
    then have "2 * 2 ^ j \<le> n" "n < 2 * 2 ^ Suc j" by auto
    then show ?thesis by (simp add: bl j)
  qed
qed

lemma exact_difference:
  "of_int (ma * 2 ^ nat (ea - min ea eb) - mb * 2 ^ nat (eb - min ea eb))
     * 2 powr of_int (min ea eb)
   = dbl_val (ma, ea) - dbl_val (mb, eb)"
proof -
  have p: "(2::real) ^ nat (x - min ea eb) * 2 powr of_int (min ea eb) = 2 powr of_int x"
    if "min ea eb \<le> x" for x
  proof -
    have "(2::real) ^ nat (x - min ea eb) = 2 powr of_int (x - min ea eb)"
      using that powr_real_of_int [of 2 "x - min ea eb"] by simp
    then show ?thesis by (simp add: powr_add [symmetric])
  qed
  have a: "of_int ma * (2::real) ^ nat (ea - min ea eb) * 2 powr of_int (min ea eb)
           = of_int ma * 2 powr of_int ea"
    using p [of ea] by (simp add: mult.assoc)
  have b: "of_int mb * (2::real) ^ nat (eb - min ea eb) * 2 powr of_int (min ea eb)
           = of_int mb * 2 powr of_int eb"
    using p [of eb] by (simp add: mult.assoc)
  have "of_int (ma * 2 ^ nat (ea - min ea eb) - mb * 2 ^ nat (eb - min ea eb))
          * 2 powr of_int (min ea eb)
        = of_int ma * (2::real) ^ nat (ea - min ea eb) * 2 powr of_int (min ea eb)
          - of_int mb * (2::real) ^ nat (eb - min ea eb) * 2 powr of_int (min ea eb)"
    by (simp add: left_diff_distrib)
  then show ?thesis by (simp only: a b dbl_val_powr)
qed

lemma float_sub_round:
  "float_sub (ma, ea) (mb, eb)
   = round53 (ma * 2 ^ nat (ea - min ea eb) - mb * 2 ^ nat (eb - min ea eb)) (min ea eb)"
  by (simp add: float_sub_def Let_def)

lemma round53_exact:
  assumes rep: "\<bar>m'\<bar> < 2 ^ 53"
    and eq: "of_int m * 2 powr of_int e = of_int m' * (2::real) powr of_int e'"
  shows "dbl_val (round53 m e) = of_int m * 2 powr of_int e"
proof (cases "bit_length (nat \<bar>m\<bar>) \<le> 53")
  case True
  then show ?thesis by (simp add: round53_def dbl_val_powr)
next
  case False
  define n where "n = bit_length (nat \<bar>m\<bar>)"
  define k where "k = n - 53"
  from False have n: "53 < n" by (simp add: n_def)
  then have k: "0 < k" "n = k + 53" by (simp_all add: k_def)
  have m0: "nat \<bar>m\<bar> \<noteq> 0"
    using False by (auto simp: bit_length.simps [of 0])
  from bit_length_bounds [OF m0] have "2 ^ (n - 1) \<le> nat \<bar>m\<bar>" by (simp add: n_def)
  then have lower: "(2::real) ^ (n - 1) \<le> \<bar>of_int m\<bar>"
    by (metis (mono_tags, opaque_lifting) abs_ge_zero nat_0_le of_int_abs of_int_of_nat_eq
          of_nat_le_iff of_nat_numeral of_nat_power)
  have upper: "\<bar>of_int m'\<bar> < (2::real) ^ 53"
    using rep by (metis of_int_abs of_int_less_iff of_int_numeral of_int_power)
  have abs_eq: "\<bar>of_int m\<bar> * 2 powr of_int e = \<bar>of_int m'\<bar> * (2::real) powr of_int e'"
    using eq by (metis abs_mult abs_of_nonneg powr_ge_zero)
  have "(2::real) ^ (n - 1) * 2 powr of_int e \<le> \<bar>of_int m\<bar> * 2 powr of_int e"
    by (rule mult_right_mono [OF lower]) simp
  also have "\<dots> = \<bar>of_int m'\<bar> * (2::real) powr of_int e'"
    by (rule abs_eq)
  also have "\<dots> < 2 ^ 53 * 2 powr of_int e'"
    by (rule mult_strict_right_mono [OF upper]) simp
  finally have "(2::real) ^ (n - 1) * 2 powr of_int e < 2 ^ 53 * 2 powr of_int e'" .
  then have "(2::real) powr (real (n - 1) + of_int e) < 2 powr (real 53 + of_int e')"
    by (simp add: powr_add powr_realpow)
  then have "real (n - 1) + of_int e < real 53 + (of_int e' :: real)"
    by simp
  then have "int (n - 1) + e < 53 + e'"
    by (metis (mono_tags, opaque_lifting) of_int_add of_int_less_iff of_int_of_nat_eq
          of_nat_numeral of_int_numeral)
  then have d: "int k \<le> e' - e" using k n by simp
  define d where "d = nat (e' - e)"
  have dk: "k \<le> d" "int d = e' - e" using d by (simp_all add: d_def)
  have one: "(2::real) powr of_int e * 2 powr (- of_int e) = 1"
    by (simp add: powr_add [symmetric])
  have "of_int m = of_int m * ((2::real) powr of_int e * 2 powr (- of_int e))"
    by (simp only: one mult_1_right)
  also have "\<dots> = (of_int m * 2 powr of_int e) * 2 powr (- of_int e)"
    by (simp only: mult.assoc)
  also have "\<dots> = (of_int m' * 2 powr of_int e') * 2 powr (- of_int e)"
    by (simp only: eq)
  also have "\<dots> = of_int m' * (2::real) powr (of_int e' - of_int e)"
    by (simp add: mult.assoc powr_add [symmetric])
  finally have "of_int m = of_int m' * (2::real) powr (of_int e' - of_int e)" .
  also have "of_int e' - of_int e = real d"
    using dk(2) by (metis of_int_diff of_int_of_nat_eq)
  finally have "of_int m = of_int m' * (2::real) ^ d"
    by (simp add: powr_realpow)
  then have "of_int m = (of_int (m' * 2 ^ d) :: real)" by simp
  then have md: "m = m' * 2 ^ d" by (simp only: of_int_eq_iff)
  have split: "m = (m' * 2 ^ (d - k)) * 2 ^ k"
    using dk(1) by (simp add: md power_add [symmetric])
  have r: "m mod 2 ^ k = 0" by (subst split) simp
  have q: "m div 2 ^ k = m' * 2 ^ (d - k)" by (subst split) simp
  have res: "round53 m e = (m' * 2 ^ (d - k), e + int k)"
    using False k(1) by (simp add: round53_def Let_def n_def [symmetric] k_def [symmetric] r q)
  have "dbl_val (round53 m e) = of_int (m' * 2 ^ (d - k)) * 2 powr of_int (e + int k)"
    by (simp only: res dbl_val_powr)
  also have "\<dots> = of_int m' * (2::real) ^ (d - k) * (2 powr of_int e * 2 ^ k)"
    by (simp add: powr_add powr_realpow)
  also have "\<dots> = of_int m' * ((2::real) ^ (d - k) * 2 ^ k) * 2 powr of_int e"
    by (simp add: mult_ac)
  also have "(2::real) ^ (d - k) * 2 ^ k = 2 ^ d"
    using dk(1) by (simp add: power_add [symmetric])
  finally show ?thesis by (simp add: md)
qed

text \<open>
  C7, as the code has it. For floats y and H: when the subtraction H - y is exact (its
  result is the exact difference, nothing is rounded away), converting y and converting
  the result back gives y again: normalize(normalize(y, H), H) == y.
\<close>

theorem normalize_exact_round_trip:
  assumes "\<bar>fst y\<bar> < 2 ^ 53"
    and "dbl_val (normalize y H) = dbl_val H - dbl_val y"
  shows "dbl_val (normalize (normalize y H) H) = dbl_val y"
proof -
  obtain mh eh where H: "H = (mh, eh)" by (cases H)
  obtain mz ez where z: "normalize y H = (mz, ez)" by (cases "normalize y H")
  obtain my ey where y: "y = (my, ey)" by (cases y)
  let ?M = "mh * 2 ^ nat (eh - min eh ez) - mz * 2 ^ nat (ez - min eh ez)"
  have ex: "of_int ?M * 2 powr of_int (min eh ez) = dbl_val (mh, eh) - dbl_val (mz, ez)"
    by (rule exact_difference)
  also have "\<dots> = dbl_val y"
  proof -
    have "dbl_val (mz, ez) = dbl_val H - dbl_val y"
      using assms(2) by (simp only: z)
    then show ?thesis by (simp add: H)
  qed
  finally have eq: "of_int ?M * 2 powr of_int (min eh ez) = of_int my * (2::real) powr of_int ey"
    by (simp only: y dbl_val_powr)
  have rep: "\<bar>my\<bar> < 2 ^ 53" using assms(1) by (simp add: y)
  have "dbl_val (normalize (normalize y H) H) = dbl_val (round53 ?M (min eh ez))"
  proof -
    have "normalize (normalize y H) H = float_sub H (normalize y H)"
      by (simp only: normalize_def [of "normalize y H" H])
    also have "\<dots> = float_sub (mh, eh) (mz, ez)"
      by (simp only: z, simp only: H)
    finally show ?thesis by (simp only: float_sub_round)
  qed
  also have "\<dots> = of_int ?M * (2::real) powr of_int (min eh ez)"
    by (rule round53_exact [OF rep eq])
  also have "\<dots> = dbl_val y"
    by (simp only: eq y dbl_val_powr)
  finally show ?thesis .
qed

lemma bit_length_values:
  "bit_length 1583 = 11"
  "bit_length (Suc 0) = 1"
  "bit_length 24344067048262861 = 55"
  "bit_length 880488911523021 = 50"
  by (simp_all add: bit_length.simps)

lemma normalize_half:
  "normalize float_0_5 float_792 = (1583, - 1)"
  "normalize (1583, - 1) float_792 = (1, - 1)"
  by (simp_all add: normalize_def float_sub_def round53_def float_792_def float_0_5_def
      bit_length_values Let_def)

theorem normalize_exact_round_trip_witness:
  "dbl_val (normalize float_0_5 float_792) = dbl_val float_792 - dbl_val float_0_5
   \<and> dbl_val (normalize (normalize float_0_5 float_792) float_792) = dbl_val float_0_5"
proof -
  have rep: "\<bar>fst float_0_5\<bar> < 2 ^ 53"
    by (simp add: float_0_5_def)
  have exact: "dbl_val (normalize float_0_5 float_792) = dbl_val float_792 - dbl_val float_0_5"
    by (simp add: normalize_half) (simp add: dbl_val_def float_792_def float_0_5_def)
  from normalize_exact_round_trip [OF rep exact] exact show ?thesis by simp
qed

lemma normalize_100_1:
  "normalize float_100_1 float_792 = (6086016762065715, - 43)"
  "normalize (6086016762065715, - 43) float_792 = (880488911523021, - 43)"
  by (simp_all add: normalize_def float_sub_def round53_def float_792_def float_100_1_def
      bit_length_values Let_def)

text \<open>
  In Python, 792.0 - (792.0 - 100.1) is 100.10000000000002 and not 100.1: the first
  subtraction rounds.
\<close>

theorem normalize_round_trip_differs:
  "\<bar>fst float_100_1\<bar> < 2 ^ 53
   \<and> 0 \<le> dbl_val float_792
   \<and> normalize (normalize float_100_1 float_792) float_792 = (880488911523021, - 43)
   \<and> dbl_val (normalize (normalize float_100_1 float_792) float_792) \<noteq> dbl_val float_100_1"
  by (simp add: normalize_100_1) (simp add: dbl_val_def float_792_def float_100_1_def)

end
